theory Spec2Isabelle
  imports Main "HOL-Library.Finite_Map" "HOL-Library.Char_ord" "HOL-Library.List_Lexorder"
begin

section \<open>Python values and the operations the engine applies to them\<close>

text \<open>
  The per-message metrics engine of \<^verbatim>\<open>src/agentcli/core/trace_utils.py\<close> works on the
  untyped summary that the agent runtime hands back: nested dictionaries, lists, strings
  and integers. The values are modelled by \<open>pyval\<close>. A dictionary has string keys and is a
  finite map, so that equality of two \<open>pyval\<close>s is Python's \<^verbatim>\<open>==\<close> on them (which ignores
  the insertion order of a dictionary). Booleans and floating-point numbers are outside
  this value universe; strings are lists of characters.

  Every operation that can raise in Python returns \<open>error + 'a\<close>, with \<open>Inl\<close> the exception.
\<close>

datatype pyval =
    VNone
  | VInt int
  | VStr string
  | VList "pyval list"
  | VDict "(string, pyval) fmap"

datatype error = AttributeError | KeyError | TypeError | ValueError | OtherException

definition bindE :: "error + 'a \<Rightarrow> ('a \<Rightarrow> error + 'b) \<Rightarrow> error + 'b" where
  "bindE m f = (case m of Inl e \<Rightarrow> Inl e | Inr x \<Rightarrow> f x)"

text \<open>\<^verbatim>\<open>obj.get(key, default)\<close>: only dictionaries have the method.\<close>

definition py_get :: "pyval \<Rightarrow> string \<Rightarrow> pyval \<Rightarrow> error + pyval" where
  "py_get obj k dflt =
     (case obj of
        VDict d \<Rightarrow> Inr (case fmlookup d k of Some v \<Rightarrow> v | None \<Rightarrow> dflt)
      | _ \<Rightarrow> Inl AttributeError)"

text \<open>\<^verbatim>\<open>obj[key]\<close> with a string key: a missing key is a KeyError, a string key on a list or
  a string is a TypeError, and so is subscripting None or an integer.\<close>

definition py_item :: "pyval \<Rightarrow> string \<Rightarrow> error + pyval" where
  "py_item obj k =
     (case obj of
        VDict d \<Rightarrow> (case fmlookup d k of Some v \<Rightarrow> Inr v | None \<Rightarrow> Inl KeyError)
      | _ \<Rightarrow> Inl TypeError)"

text \<open>Truth value of an object in a condition.\<close>

definition py_truthy :: "pyval \<Rightarrow> bool" where
  "py_truthy v =
     (case v of
        VNone \<Rightarrow> False
      | VInt i \<Rightarrow> i \<noteq> 0
      | VStr s \<Rightarrow> s \<noteq> []
      | VList xs \<Rightarrow> xs \<noteq> []
      | VDict d \<Rightarrow> fmdom d \<noteq> {||})"

text \<open>\<^verbatim>\<open>for x in obj\<close>: a list yields its elements, a string its characters, a dictionary its
  keys; None and integers are not iterable. The finite map has lost the insertion order of
  the keys and yields them sorted; every loop of the engine either skips a string item or
  raises on the first one, so the order of the keys never reaches a result.\<close>

definition py_iter :: "pyval \<Rightarrow> error + pyval list" where
  "py_iter v =
     (case v of
        VList xs \<Rightarrow> Inr xs
      | VStr s \<Rightarrow> Inr (map (\<lambda>c. VStr [c]) s)
      | VDict d \<Rightarrow> Inr (map VStr (sorted_list_of_fset (fmdom d)))
      | _ \<Rightarrow> Inl TypeError)"

text \<open>\<^verbatim>\<open>len(obj)\<close>.\<close>

definition py_len :: "pyval \<Rightarrow> error + int" where
  "py_len v =
     (case v of
        VList xs \<Rightarrow> Inr (int (length xs))
      | VStr s \<Rightarrow> Inr (int (length s))
      | VDict d \<Rightarrow> Inr (int (fcard (fmdom d)))
      | _ \<Rightarrow> Inl TypeError)"

text \<open>Arithmetic on the counters: \<^verbatim>\<open>a - b\<close>, \<^verbatim>\<open>max(lo, a)\<close> with an integer literal \<open>lo\<close>,
  \<^verbatim>\<open>a // m\<close> with a positive integer \<open>m\<close>, and \<^verbatim>\<open>a < n\<close> with an integer \<open>n\<close>. Each is defined on
  integers only in this value universe; anything else is a TypeError.\<close>

definition py_sub :: "pyval \<Rightarrow> pyval \<Rightarrow> error + pyval" where
  "py_sub a b = (case (a, b) of (VInt x, VInt y) \<Rightarrow> Inr (VInt (x - y)) | _ \<Rightarrow> Inl TypeError)"

definition py_max :: "int \<Rightarrow> pyval \<Rightarrow> error + int" where
  "py_max lo a = (case a of VInt x \<Rightarrow> Inr (max lo x) | _ \<Rightarrow> Inl TypeError)"

definition py_floordiv :: "pyval \<Rightarrow> int \<Rightarrow> error + pyval" where
  "py_floordiv a m = (case a of VInt x \<Rightarrow> Inr (VInt (x div m)) | _ \<Rightarrow> Inl TypeError)"

definition py_less_int :: "pyval \<Rightarrow> int \<Rightarrow> error + bool" where
  "py_less_int a n = (case a of VInt x \<Rightarrow> Inr (x < n) | _ \<Rightarrow> Inl TypeError)"

text \<open>Substring test, for \<^verbatim>\<open>'Tool:' in name\<close>.\<close>

fun is_prefix :: "string \<Rightarrow> string \<Rightarrow> bool" where
  "is_prefix [] ys = True"
| "is_prefix (x # xs) [] = False"
| "is_prefix (x # xs) (y # ys) = (x = y \<and> is_prefix xs ys)"

fun str_contains :: "string \<Rightarrow> string \<Rightarrow> bool" where
  "str_contains needle [] = (needle = [])"
| "str_contains needle (c # cs) = (is_prefix needle (c # cs) \<or> str_contains needle cs)"

text \<open>\<^verbatim>\<open>needle in obj\<close> for a string needle: substring of a string, element of a list, key of
  a dictionary; None and integers are not containers.\<close>

definition py_contains :: "string \<Rightarrow> pyval \<Rightarrow> error + bool" where
  "py_contains needle obj =
     (case obj of
        VStr s \<Rightarrow> Inr (str_contains needle s)
      | VList xs \<Rightarrow> Inr (VStr needle \<in> set xs)
      | VDict d \<Rightarrow> Inr (fmlookup d needle \<noteq> None)
      | _ \<Rightarrow> Inl TypeError)"

text \<open>\<^verbatim>\<open>isinstance(item, dict) and key in item\<close>; when it holds, \<open>item[key]\<close> is \<open>dict_field\<close>.\<close>

definition dict_field :: "pyval \<Rightarrow> string \<Rightarrow> pyval option" where
  "dict_field item k = (case item of VDict d \<Rightarrow> fmlookup d k | _ \<Rightarrow> None)"

subsection \<open>Slices\<close>

text \<open>A slice bound is an integer or None. A negative bound counts from the end, and both
  bounds are clamped to the length, as Python does for \<^verbatim>\<open>xs[lo:hi]\<close>.\<close>

definition slice_bound :: "nat \<Rightarrow> int \<Rightarrow> nat" where
  "slice_bound n i = (if i < 0 then nat (max 0 (int n + i)) else min n (nat i))"

definition slice_list :: "'a list \<Rightarrow> int \<Rightarrow> int \<Rightarrow> 'a list" where
  "slice_list xs lo hi =
     (let n = length xs; l = slice_bound n lo; h = slice_bound n hi
      in take (h - l) (drop l xs))"

definition slice_index :: "pyval \<Rightarrow> int \<Rightarrow> error + int" where
  "slice_index b dflt = (case b of VInt i \<Rightarrow> Inr i | VNone \<Rightarrow> Inr dflt | _ \<Rightarrow> Inl TypeError)"

definition py_slice :: "pyval \<Rightarrow> pyval \<Rightarrow> pyval \<Rightarrow> error + pyval" where
  "py_slice obj lo hi =
     (case obj of
        VList xs \<Rightarrow>
          bindE (slice_index lo 0) (\<lambda>l.
          bindE (slice_index hi (int (length xs))) (\<lambda>h.
          Inr (VList (slice_list xs l h))))
      | VStr s \<Rightarrow>
          bindE (slice_index lo 0) (\<lambda>l.
          bindE (slice_index hi (int (length s))) (\<lambda>h.
          Inr (VStr (slice_list s l h))))
      | _ \<Rightarrow> Inl TypeError)"

text \<open>Line 116 of \<^verbatim>\<open>calculate_per_message_metrics\<close>, the trace slicer:
  \<^verbatim>\<open>all_traces[prev_cycles_index:curr_cycles] if prev_cycles_index < len(all_traces) else []\<close>.\<close>

definition slice_new_traces :: "pyval \<Rightarrow> pyval \<Rightarrow> pyval \<Rightarrow> error + pyval" where
  "slice_new_traces all_traces prev_cycles_index curr_cycles =
     bindE (py_len all_traces) (\<lambda>n.
     bindE (py_less_int prev_cycles_index n) (\<lambda>below.
     if below then py_slice all_traces prev_cycles_index curr_cycles else Inr (VList [])))"

section \<open>Content extraction\<close>

text \<open>
  Lines 119 to 156 of \<^verbatim>\<open>calculate_per_message_metrics\<close> walk the new trace nodes and their
  direct children (the copy of these loops in \<^verbatim>\<open>extract_direct_metrics_from_response\<close> is
  modelled with that function). Each loop of the source is one recursive function on the list
  that the loop iterates over; an exception raised in a loop body ends the whole walk.
\<close>

record tool_call =
  tc_id :: pyval
  tc_name :: pyval
  tc_parameters :: pyval
  tc_result :: pyval

text \<open>\<^verbatim>\<open>child.get('name') == 'stream_messages' and
  child.get('message', {}).get('role') == 'assistant'\<close>; the message is only looked at when
  the name matches.\<close>

definition is_assistant_step :: "pyval \<Rightarrow> error + bool" where
  "is_assistant_step child =
     bindE (py_get child ''name'' VNone) (\<lambda>nm.
     if nm \<noteq> VStr ''stream_messages'' then Inr False
     else
       bindE (py_get child ''message'' (VDict fmempty)) (\<lambda>msg.
       bindE (py_get msg ''role'' VNone) (\<lambda>role.
       Inr (role = VStr ''assistant''))))"

text \<open>\<^verbatim>\<open>child.get('message', {}).get('content', [])\<close>.\<close>

definition message_content :: "pyval \<Rightarrow> error + pyval" where
  "message_content child =
     bindE (py_get child ''message'' (VDict fmempty)) (\<lambda>msg.
     py_get msg ''content'' (VList []))"

text \<open>Lines 146 to 148, \<^verbatim>\<open>for content_item in result_content\<close>: every text block assigns
  \<open>tool_result\<close> again, and the loop has no \<^verbatim>\<open>break\<close>.\<close>

fun scan_result_content :: "pyval list \<Rightarrow> pyval \<Rightarrow> pyval" where
  "scan_result_content [] tool_result = tool_result"
| "scan_result_content (content_item # rest) tool_result =
     scan_result_content rest
       (case dict_field content_item ''text'' of
          Some t \<Rightarrow> t
        | None \<Rightarrow> tool_result)"

text \<open>Lines 143 to 148, \<^verbatim>\<open>for result_item in other_child['message']['content']\<close>.\<close>

fun scan_result_items :: "pyval list \<Rightarrow> pyval \<Rightarrow> error + pyval" where
  "scan_result_items [] tool_result = Inr tool_result"
| "scan_result_items (result_item # rest) tool_result =
     (case dict_field result_item ''toolResult'' of
        None \<Rightarrow> scan_result_items rest tool_result
      | Some tr \<Rightarrow>
          (case py_get tr ''content'' (VList []) of
             Inl e \<Rightarrow> Inl e
           | Inr result_content \<Rightarrow>
               (case py_iter result_content of
                  Inl e \<Rightarrow> Inl e
                | Inr content_items \<Rightarrow>
                    scan_result_items rest (scan_result_content content_items tool_result))))"

text \<open>Line 140, the test on a sibling:
  \<^verbatim>\<open>'Tool:' in other_child.get('name', '') and
  other_child.get('metadata', {}).get('toolUseId') == tool_id\<close>.\<close>

definition sibling_matches :: "pyval \<Rightarrow> pyval \<Rightarrow> error + bool" where
  "sibling_matches other_child tool_id =
     bindE (py_get other_child ''name'' (VStr [])) (\<lambda>nm.
     bindE (py_contains ''Tool:'' nm) (\<lambda>marked.
     if \<not> marked then Inr False
     else
       bindE (py_get other_child ''metadata'' (VDict fmempty)) (\<lambda>md.
       bindE (py_get md ''toolUseId'' VNone) (\<lambda>i.
       Inr (i = tool_id)))))"

text \<open>Lines 142 to 148, the body run on the matching sibling; \<open>tool_result\<close> starts as the
  empty string (line 138).\<close>

definition sibling_result :: "pyval \<Rightarrow> error + pyval" where
  "sibling_result other_child =
     bindE (py_get other_child ''message'' (VDict fmempty)) (\<lambda>msg.
     bindE (py_get msg ''content'' VNone) (\<lambda>c.
     if py_truthy c then
       bindE (py_item other_child ''message'') (\<lambda>m.
       bindE (py_item m ''content'') (\<lambda>content.
       bindE (py_iter content) (\<lambda>result_items.
       scan_result_items result_items (VStr []))))
     else Inr (VStr [])))"

text \<open>Lines 139 to 149, \<^verbatim>\<open>for other_child in trace.get('children', [])\<close>: the \<^verbatim>\<open>break\<close> of
  line 149 leaves the loop at the first sibling that passes the test.\<close>

fun find_tool_result :: "pyval list \<Rightarrow> pyval \<Rightarrow> error + pyval" where
  "find_tool_result [] tool_id = Inr (VStr [])"
| "find_tool_result (other_child # rest) tool_id =
     (case sibling_matches other_child tool_id of
        Inl e \<Rightarrow> Inl e
      | Inr True \<Rightarrow> sibling_result other_child
      | Inr False \<Rightarrow> find_tool_result rest tool_id)"

text \<open>Lines 132 to 156, the branch for a \<open>toolUse\<close> block; \<open>children\<close> is the list that
  \<^verbatim>\<open>trace.get('children', [])\<close> iterates over.\<close>

definition tool_call_of :: "pyval list \<Rightarrow> pyval \<Rightarrow> error + tool_call" where
  "tool_call_of children tool_use =
     bindE (py_get tool_use ''toolUseId'' (VStr [])) (\<lambda>tool_id.
     bindE (py_get tool_use ''name'' (VStr ''unknown'')) (\<lambda>tool_name.
     bindE (py_get tool_use ''input'' (VDict fmempty)) (\<lambda>tool_input.
     bindE (find_tool_result children tool_id) (\<lambda>tool_result.
     Inr \<lparr>tc_id = tool_id, tc_name = tool_name,
          tc_parameters = tool_input, tc_result = tool_result\<rparr>))))"

text \<open>Lines 127 to 156, \<^verbatim>\<open>for item in content\<close>, with the two accumulators
  \<open>message_contents\<close> and \<open>tool_calls\<close>. A block with a \<open>text\<close> key is a text block even when
  it has a \<open>toolUse\<close> key as well (\<^verbatim>\<open>if\<close> before \<^verbatim>\<open>elif\<close>).\<close>

fun extract_items ::
  "pyval list \<Rightarrow> pyval list \<Rightarrow> pyval list \<times> tool_call list \<Rightarrow> error + pyval list \<times> tool_call list"
where
  "extract_items children [] acc = Inr acc"
| "extract_items children (item # rest) (message_contents, tool_calls) =
     (case dict_field item ''text'' of
        Some t \<Rightarrow> extract_items children rest (message_contents @ [t], tool_calls)
      | None \<Rightarrow>
          (case dict_field item ''toolUse'' of
             Some tool_use \<Rightarrow>
               (case tool_call_of children tool_use of
                  Inl e \<Rightarrow> Inl e
                | Inr tc \<Rightarrow> extract_items children rest (message_contents, tool_calls @ [tc]))
           | None \<Rightarrow> extract_items children rest (message_contents, tool_calls)))"

text \<open>Lines 123 to 156, \<^verbatim>\<open>for child in trace.get('children', [])\<close>; the first argument is
  the whole list of children, which the inner sibling scan starts over from.\<close>

fun extract_children ::
  "pyval list \<Rightarrow> pyval list \<Rightarrow> pyval list \<times> tool_call list \<Rightarrow> error + pyval list \<times> tool_call list"
where
  "extract_children children [] acc = Inr acc"
| "extract_children children (child # rest) acc =
     (case is_assistant_step child of
        Inl e \<Rightarrow> Inl e
      | Inr False \<Rightarrow> extract_children children rest acc
      | Inr True \<Rightarrow>
          (case bindE (message_content child) py_iter of
             Inl e \<Rightarrow> Inl e
           | Inr items \<Rightarrow>
               (case extract_items children items acc of
                  Inl e \<Rightarrow> Inl e
                | Inr acc' \<Rightarrow> extract_children children rest acc')))"

text \<open>Lines 122 to 156, \<^verbatim>\<open>for trace in new_traces\<close>.\<close>

fun extract_traces ::
  "pyval list \<Rightarrow> pyval list \<times> tool_call list \<Rightarrow> error + pyval list \<times> tool_call list"
where
  "extract_traces [] acc = Inr acc"
| "extract_traces (trace # rest) acc =
     (case bindE (py_get trace ''children'' (VList [])) py_iter of
        Inl e \<Rightarrow> Inl e
      | Inr children \<Rightarrow>
          (case extract_children children children acc of
             Inl e \<Rightarrow> Inl e
           | Inr acc' \<Rightarrow> extract_traces rest acc'))"

definition extract_content :: "pyval \<Rightarrow> error + pyval list \<times> tool_call list" where
  "extract_content new_traces =
     bindE (py_iter new_traces) (\<lambda>traces. extract_traces traces ([], []))"

section \<open>The objects handed to the engine\<close>

text \<open>
  The model object bound to an agent is probed by attribute name (lines 189 to 210). An
  attribute is absent, or it is present and \<^verbatim>\<open>str()\<close> of its value gives a string or raises.
\<close>

datatype attr = NoAttr | Attr "error + string"

record model_obj =
  model_id :: attr
  model :: attr
  model_name :: attr
  private_model_id :: attr
  dict_model_id :: attr
  class_name :: "error + string"

text \<open>
  \<open>private_model_id\<close> is the attribute \<^verbatim>\<open>_model_id\<close>, \<open>dict_model_id\<close> is the entry
  \<^verbatim>\<open>model_obj.__dict__['model_id']\<close>, and \<open>class_name\<close> is \<^verbatim>\<open>model_obj.__class__.__name__\<close>.

  Of the agent the engine uses its identity \<^verbatim>\<open>id(agent)\<close>, its truth value, the attribute
  \<^verbatim>\<open>model\<close> (\<open>None\<close> when it is absent or falsy), the attribute \<^verbatim>\<open>name\<close> (\<open>None\<close> when it is
  absent or falsy) and the name of its class.
\<close>

record agent =
  agent_id :: nat
  agent_truthy :: bool
  agent_model :: "model_obj option"
  agent_name :: "string option"
  agent_class_name :: string

text \<open>
  Of the turn result the engine uses the attribute \<^verbatim>\<open>metrics\<close>, its truth value and its
  printable form \<^verbatim>\<open>str(agent_response)\<close>. The attribute is probed with
  \<^verbatim>\<open>hasattr(agent_response, 'metrics')\<close>, which reads it: the result has no such attribute
  (\<open>NoMetrics\<close>); or reading it raises an exception other than AttributeError, which
  \<^verbatim>\<open>hasattr\<close> does not catch (\<open>ProbeRaises\<close>); or the attribute is there, and
  \<^verbatim>\<open>agent_response.metrics.get_summary()\<close> returns a value or raises (\<open>Metrics\<close>).
\<close>

datatype metrics_attr = NoMetrics | ProbeRaises error | Metrics "error + pyval"

record agent_response =
  metrics :: metrics_attr
  response_truthy :: bool
  response_str :: string

section \<open>Engine state\<close>

text \<open>
  \<^verbatim>\<open>_agent_snapshots\<close> maps \<^verbatim>\<open>id(agent)\<close> to the dictionary of the five counters seen last;
  \<^verbatim>\<open>_session_totals\<close> is a dictionary from counter names to running sums. Both are module
  globals, so every function that touches them takes the state and returns the new one,
  also when it raises.

  The functions also write messages to the standard output of the process with \<^verbatim>\<open>print\<close>.
  Of that stream the state keeps only whether a write to it raises, and what (an encoding
  without the characters of the messages, a closed pipe). Every message of the module
  starts with a character outside ASCII, so a stream takes all of them or none; what is
  written is not modelled.
\<close>

record snapshot =
  snap_inputTokens :: pyval
  snap_outputTokens :: pyval
  snap_totalTokens :: pyval
  snap_cycles :: pyval
  snap_latencyMs :: pyval

record engine_state =
  agent_snapshots :: "nat \<rightharpoonup> snapshot"
  session_totals :: "string \<rightharpoonup> int"
  stdout_error :: "error option"

text \<open>\<^verbatim>\<open>print(...)\<close> on a stream that raises \<open>out\<close>, if anything.\<close>

definition py_print :: "error option \<Rightarrow> error + unit" where
  "py_print out = (case out of None \<Rightarrow> Inr () | Some e \<Rightarrow> Inl e)"

text \<open>The state when the module has been loaded (lines 9 to 18), with a standard output
  that takes the messages.\<close>

definition initial_state :: engine_state where
  "initial_state =
     \<lparr>agent_snapshots = Map.empty,
      session_totals =
        [''inputTokens'' \<mapsto> 0, ''outputTokens'' \<mapsto> 0, ''totalTokens'' \<mapsto> 0,
         ''cycles'' \<mapsto> 0, ''latencyMs'' \<mapsto> 0],
      stdout_error = None\<rparr>"

text \<open>\<^verbatim>\<open>reset_metrics_state\<close> (lines 320 to 325) calls \<^verbatim>\<open>clear()\<close> on both dictionaries, which
  removes every key. Its \<^verbatim>\<open>print\<close> comes after both calls, so this is the state after the
  call whether or not the write raises.\<close>

definition reset_metrics_state :: "engine_state \<Rightarrow> engine_state" where
  "reset_metrics_state s = s\<lparr>agent_snapshots := Map.empty, session_totals := Map.empty\<rparr>"

section \<open>Per-message metrics\<close>

record per_message_data =
  pm_token_delta :: pyval
  pm_new_cycles :: pyval
  pm_latency_ms :: pyval
  pm_message_contents :: "pyval list"
  pm_tool_calls :: "tool_call list"
  pm_tool_usage :: pyval
  pm_new_traces :: pyval
  pm_metrics_summary :: pyval

text \<open>Lines 59 to 61: the current cumulative usage, cycle count and latency.\<close>

definition read_counters :: "pyval \<Rightarrow> error + pyval \<times> pyval \<times> pyval" where
  "read_counters current_summary =
     bindE (py_get current_summary ''accumulated_usage'' (VDict fmempty)) (\<lambda>curr_usage.
     bindE (py_get current_summary ''total_cycles'' (VInt 0)) (\<lambda>curr_cycles.
     bindE (py_get current_summary ''accumulated_metrics'' (VDict fmempty)) (\<lambda>am.
     bindE (py_get am ''latencyMs'' (VInt 0)) (\<lambda>curr_latency.
     Inr (curr_usage, curr_cycles, curr_latency)))))"

text \<open>\<^verbatim>\<open>max(0, cur - prev)\<close>.\<close>

definition clamped_diff :: "pyval \<Rightarrow> pyval \<Rightarrow> error + pyval" where
  "clamped_diff cur prev =
     bindE (py_sub cur prev) (\<lambda>d.
     bindE (py_max 0 d) (\<lambda>m. Inr (VInt m)))"

text \<open>\<^verbatim>\<open>max(0, curr_usage.get(key, 0) - prev)\<close>.\<close>

definition usage_delta :: "pyval \<Rightarrow> string \<Rightarrow> pyval \<Rightarrow> error + pyval" where
  "usage_delta curr_usage k prev =
     bindE (py_get curr_usage k (VInt 0)) (\<lambda>cur. clamped_diff cur prev)"

text \<open>Lines 64 to 85, the delta calculation. \<open>prev_snapshot\<close> is \<open>None\<close> when no agent object was
  given or when the table has no entry for it; then the current values are the deltas.\<close>

definition compute_delta ::
  "pyval \<Rightarrow> pyval \<Rightarrow> pyval \<Rightarrow> snapshot option \<Rightarrow> error + pyval \<times> pyval \<times> pyval"
where
  "compute_delta curr_usage curr_cycles curr_latency prev_snapshot =
     (case prev_snapshot of
        None \<Rightarrow> Inr (curr_usage, curr_cycles, curr_latency)
      | Some prev \<Rightarrow>
          bindE (usage_delta curr_usage ''inputTokens'' (snap_inputTokens prev)) (\<lambda>d_in.
          bindE (usage_delta curr_usage ''outputTokens'' (snap_outputTokens prev)) (\<lambda>d_out.
          bindE (usage_delta curr_usage ''totalTokens'' (snap_totalTokens prev)) (\<lambda>d_tot.
          bindE (clamped_diff curr_cycles (snap_cycles prev)) (\<lambda>delta_cycles.
          bindE (clamped_diff curr_latency (snap_latencyMs prev)) (\<lambda>delta_latency.
          Inr (VDict (fmap_of_list
                 [(''inputTokens'', d_in), (''outputTokens'', d_out), (''totalTokens'', d_tot)]),
               delta_cycles, delta_latency)))))))"

text \<open>Lines 89 to 95, the dictionary saved as the new snapshot.\<close>

definition take_snapshot :: "pyval \<Rightarrow> pyval \<Rightarrow> pyval \<Rightarrow> error + snapshot" where
  "take_snapshot curr_usage curr_cycles curr_latency =
     bindE (py_get curr_usage ''inputTokens'' (VInt 0)) (\<lambda>v_in.
     bindE (py_get curr_usage ''outputTokens'' (VInt 0)) (\<lambda>v_out.
     bindE (py_get curr_usage ''totalTokens'' (VInt 0)) (\<lambda>v_tot.
     Inr \<lparr>snap_inputTokens = v_in, snap_outputTokens = v_out, snap_totalTokens = v_tot,
          snap_cycles = curr_cycles, snap_latencyMs = curr_latency\<rparr>)))"

text \<open>One statement \<^verbatim>\<open>_session_totals[key] += rhs\<close>: the old total is read first (a KeyError
  when the key is gone), then the right-hand side is evaluated, then the sum is stored.\<close>

definition add_total ::
  "(string \<rightharpoonup> int) \<Rightarrow> string \<Rightarrow> error + pyval \<Rightarrow> error + (string \<rightharpoonup> int)"
where
  "add_total totals k rhs =
     (case totals k of
        None \<Rightarrow> Inl KeyError
      | Some t \<Rightarrow>
          (case rhs of
             Inl e \<Rightarrow> Inl e
           | Inr (VInt d) \<Rightarrow> Inr (totals(k \<mapsto> t + d))
           | Inr _ \<Rightarrow> Inl TypeError))"

text \<open>Lines 98 to 102. A statement that raises leaves the totals as the statements before it
  made them, so the function returns the totals together with the exception, if any.\<close>

definition accumulate ::
  "(string \<rightharpoonup> int) \<Rightarrow> pyval \<Rightarrow> pyval \<Rightarrow> pyval \<Rightarrow> error option \<times> (string \<rightharpoonup> int)"
where
  "accumulate t0 delta_usage delta_cycles delta_latency =
     (case add_total t0 ''inputTokens'' (py_get delta_usage ''inputTokens'' (VInt 0)) of
        Inl e \<Rightarrow> (Some e, t0)
      | Inr t1 \<Rightarrow>
     (case add_total t1 ''outputTokens'' (py_get delta_usage ''outputTokens'' (VInt 0)) of
        Inl e \<Rightarrow> (Some e, t1)
      | Inr t2 \<Rightarrow>
     (case add_total t2 ''totalTokens'' (py_get delta_usage ''totalTokens'' (VInt 0)) of
        Inl e \<Rightarrow> (Some e, t2)
      | Inr t3 \<Rightarrow>
     (case add_total t3 ''cycles'' (Inr delta_cycles) of
        Inl e \<Rightarrow> (Some e, t3)
      | Inr t4 \<Rightarrow>
     (case add_total t4 ''latencyMs'' (Inr delta_latency) of
        Inl e \<Rightarrow> (Some e, t4)
      | Inr t5 \<Rightarrow> (None, t5))))))"

text \<open>Lines 108 to 172: the slice of new traces, the content extraction and the returned
  dictionary. \<open>prev_snapshot\<close> is the snapshot found before the table was updated; its cycle
  count is where the slice starts.\<close>

definition collect_message ::
  "pyval \<Rightarrow> pyval \<times> pyval \<times> pyval \<Rightarrow> pyval \<Rightarrow> snapshot option \<Rightarrow> error + per_message_data"
where
  "collect_message current_summary deltas curr_cycles prev_snapshot =
     (case deltas of (delta_usage, delta_cycles, delta_latency) \<Rightarrow>
     bindE (py_get current_summary ''traces'' (VList [])) (\<lambda>all_traces.
     bindE (slice_new_traces all_traces
              (case prev_snapshot of None \<Rightarrow> VInt 0 | Some prev \<Rightarrow> snap_cycles prev)
              curr_cycles) (\<lambda>new_traces.
     bindE (extract_content new_traces) (\<lambda>(message_contents, tool_calls).
     bindE (py_get current_summary ''tool_usage'' (VDict fmempty)) (\<lambda>tool_usage.
     Inr \<lparr>pm_token_delta = delta_usage, pm_new_cycles = delta_cycles,
          pm_latency_ms = delta_latency, pm_message_contents = message_contents,
          pm_tool_calls = tool_calls, pm_tool_usage = tool_usage,
          pm_new_traces = new_traces, pm_metrics_summary = current_summary\<rparr>)))))"

text \<open>Lines 88 to 95: the snapshot is written only on the path with an agent object.\<close>

definition save_snapshot ::
  "agent option \<Rightarrow> pyval \<Rightarrow> pyval \<Rightarrow> pyval \<Rightarrow> engine_state \<Rightarrow> error + engine_state"
where
  "save_snapshot agent_obj curr_usage curr_cycles curr_latency s =
     (case agent_obj of
        None \<Rightarrow> Inr s
      | Some a \<Rightarrow>
          bindE (take_snapshot curr_usage curr_cycles curr_latency) (\<lambda>snap.
          Inr (s\<lparr>agent_snapshots := (agent_snapshots s)(agent_id a \<mapsto> snap)\<rparr>)))"

text \<open>\<^verbatim>\<open>calculate_per_message_metrics\<close> (lines 48 to 172), in the order of the source: read
  the counters, look the snapshot up, compute the deltas, save the new snapshot, add the
  deltas to the session totals, then slice and extract. The state returned with an
  exception is the state at the statement that raised.\<close>

definition calculate_per_message_metrics ::
  "pyval \<Rightarrow> agent option \<Rightarrow> engine_state \<Rightarrow> (error + per_message_data) \<times> engine_state"
where
  "calculate_per_message_metrics current_summary agent_obj s =
     (case read_counters current_summary of
        Inl e \<Rightarrow> (Inl e, s)
      | Inr (curr_usage, curr_cycles, curr_latency) \<Rightarrow>
     (let prev_snapshot =
            (case agent_obj of None \<Rightarrow> None | Some a \<Rightarrow> agent_snapshots s (agent_id a))
      in
     (case compute_delta curr_usage curr_cycles curr_latency prev_snapshot of
        Inl e \<Rightarrow> (Inl e, s)
      | Inr (delta_usage, delta_cycles, delta_latency) \<Rightarrow>
     (case save_snapshot agent_obj curr_usage curr_cycles curr_latency s of
        Inl e \<Rightarrow> (Inl e, s)
      | Inr s1 \<Rightarrow>
     (case accumulate (session_totals s1) delta_usage delta_cycles delta_latency of
        (Some e, totals) \<Rightarrow> (Inl e, s1\<lparr>session_totals := totals\<rparr>)
      | (None, totals) \<Rightarrow>
          (collect_message current_summary (delta_usage, delta_cycles, delta_latency)
             curr_cycles prev_snapshot,
           s1\<lparr>session_totals := totals\<rparr>))))))"

section \<open>The view builder\<close>

subsection \<open>Display name of the model\<close>

text \<open>Lines 203 to 210: the class name matched against the known providers; a class name
  that matches none of them is used as it is.\<close>

definition provider_of_class :: "string \<Rightarrow> string" where
  "provider_of_class cn =
     (if str_contains ''Bedrock'' cn then ''BedrockModel''
      else if str_contains ''Anthropic'' cn then ''AnthropicModel''
      else if str_contains ''OpenAI'' cn then ''OpenAIModel''
      else cn)"

text \<open>Lines 201 to 212, the inner \<^verbatim>\<open>try\<close>, which catches AttributeError and TypeError.\<close>

definition model_from_class :: "model_obj \<Rightarrow> error + string" where
  "model_from_class m =
     (case class_name m of
        Inr cn \<Rightarrow> Inr (provider_of_class cn)
      | Inl e \<Rightarrow> if e = AttributeError \<or> e = TypeError then Inr ''Unknown Model'' else Inl e)"

text \<open>Lines 189 to 212, the chain of \<^verbatim>\<open>hasattr\<close> probes.\<close>

definition probe_model :: "model_obj \<Rightarrow> error + string" where
  "probe_model m =
     (case model_id m of Attr r \<Rightarrow> r | NoAttr \<Rightarrow>
     (case model m of Attr r \<Rightarrow> r | NoAttr \<Rightarrow>
     (case model_name m of Attr r \<Rightarrow> r | NoAttr \<Rightarrow>
     (case private_model_id m of Attr r \<Rightarrow> r | NoAttr \<Rightarrow>
     (case dict_model_id m of Attr r \<Rightarrow> r | NoAttr \<Rightarrow>
      model_from_class m)))))"

text \<open>Lines 188 to 215, the outer \<^verbatim>\<open>try\<close>, which catches AttributeError, TypeError and
  ValueError; any other exception leaves \<^verbatim>\<open>convert_to_ui_format\<close>.\<close>

definition display_model_name :: "model_obj \<Rightarrow> error + string" where
  "display_model_name m =
     (case probe_model m of
        Inr nm \<Rightarrow> Inr nm
      | Inl e \<Rightarrow>
          if e = AttributeError \<or> e = TypeError \<or> e = ValueError
          then Inr ''Unknown Model'' else Inl e)"

text \<open>Lines 181 to 215: without an agent, or without a model on it, the hard-coded model
  identifier stays.\<close>

definition actual_model_of :: "agent option \<Rightarrow> error + string" where
  "actual_model_of agent =
     (case agent of
        None \<Rightarrow> Inr ''us.anthropic.claude-3-7-sonnet-20250219-v1:0''
      | Some a \<Rightarrow>
          if agent_truthy a then
            (case agent_model a of
               None \<Rightarrow> Inr ''us.anthropic.claude-3-7-sonnet-20250219-v1:0''
             | Some m \<Rightarrow> display_model_name m)
          else Inr ''us.anthropic.claude-3-7-sonnet-20250219-v1:0'')"

text \<open>Lines 182 and 216 to 219.\<close>

definition agent_name_of :: "agent option \<Rightarrow> string" where
  "agent_name_of agent =
     (case agent of
        None \<Rightarrow> ''Strands Agent''
      | Some a \<Rightarrow>
          if agent_truthy a then
            (case agent_name a of Some nm \<Rightarrow> nm | None \<Rightarrow> agent_class_name a)
          else ''Strands Agent'')"

subsection \<open>Cycles and model calls\<close>

text \<open>Decimal numerals for the f-strings \<^verbatim>\<open>f'cycle_{i+1}'\<close> and \<^verbatim>\<open>f"msg_{...}"\<close>.\<close>

fun str_of_nat :: "nat \<Rightarrow> string" where
  "str_of_nat n =
     (if n < 10 then [''0123456789'' ! n]
      else str_of_nat (n div 10) @ [''0123456789'' ! (n mod 10)])"

text \<open>\<^verbatim>\<open>str.strip()\<close>, for the ASCII white space characters.\<close>

definition is_space :: "char \<Rightarrow> bool" where
  "is_space c = ((of_char c :: nat) \<in> {9, 10, 11, 12, 13, 28, 29, 30, 31, 32})"

definition py_strip :: "string \<Rightarrow> string" where
  "py_strip s = rev (dropWhile is_space (rev (dropWhile is_space s)))"

text \<open>\<^verbatim>\<open>int(s)\<close> for a string \<open>s\<close>, in base 10: white space around the literal is dropped, a
  sign may come first, and the rest is digits, with single underscores allowed between two
  digits. The interpreter refuses a literal with more digits than its limit, which is 4300
  unless it has been configured otherwise. Anything else is a ValueError. (Decimal digits
  outside ASCII are not in this model of strings.)\<close>

definition is_digit :: "char \<Rightarrow> bool" where
  "is_digit c = (48 \<le> (of_char c :: nat) \<and> (of_char c :: nat) \<le> 57)"

fun digit_groups :: "string \<Rightarrow> bool" where
  "digit_groups [] = False"
| "digit_groups [c] = is_digit c"
| "digit_groups (c # d # rest) =
     (is_digit c \<and> (if d = CHR ''_'' then digit_groups rest else digit_groups (d # rest)))"

definition int_max_str_digits :: nat where
  "int_max_str_digits = 4300"

definition digits_value :: "string \<Rightarrow> int" where
  "digits_value ds = int (foldl (\<lambda>a c. 10 * a + (of_char c - 48)) 0 ds)"

definition py_int_of_str :: "string \<Rightarrow> error + int" where
  "py_int_of_str s =
     (let t = py_strip s;
          signed = (t \<noteq> [] \<and> (hd t = CHR ''-'' \<or> hd t = CHR ''+''));
          body = (if signed then tl t else t);
          ds = filter is_digit body
      in if digit_groups body \<and> length ds \<le> int_max_str_digits
         then Inr (if signed \<and> hd t = CHR ''-'' then - digits_value ds else digits_value ds)
         else Inl ValueError)"

text \<open>Line 247:
  \<^verbatim>\<open>int(trace.get('duration', 1) * 1000) if trace.get('duration') else 1000\<close>. A string times
  1000 is the string repeated, a list times 1000 is a list, which \<^verbatim>\<open>int\<close> rejects, and a
  dictionary cannot be multiplied.\<close>

definition duration_ms_of :: "pyval \<Rightarrow> error + int" where
  "duration_ms_of trace =
     bindE (py_get trace ''duration'' VNone) (\<lambda>d.
     if py_truthy d then
       (case d of
          VInt n \<Rightarrow> Inr (n * 1000)
        | VStr s \<Rightarrow> py_int_of_str (concat (replicate 1000 s))
        | _ \<Rightarrow> Inl TypeError)
     else Inr 1000)"

text \<open>Lines 237 to 239, \<^verbatim>\<open>completion_text += item['text'] + " "\<close>: the text must be a
  string.\<close>

fun completion_items :: "pyval list \<Rightarrow> string \<Rightarrow> error + string" where
  "completion_items [] completion_text = Inr completion_text"
| "completion_items (item # rest) completion_text =
     (case dict_field item ''text'' of
        None \<Rightarrow> completion_items rest completion_text
      | Some (VStr t) \<Rightarrow> completion_items rest (completion_text @ t @ '' '')
      | Some _ \<Rightarrow> Inl TypeError)"

text \<open>Lines 234 to 239, \<^verbatim>\<open>for child in trace.get('children', [])\<close>.\<close>

fun completion_children :: "pyval list \<Rightarrow> string \<Rightarrow> error + string" where
  "completion_children [] completion_text = Inr completion_text"
| "completion_children (child # rest) completion_text =
     (case is_assistant_step child of
        Inl e \<Rightarrow> Inl e
      | Inr False \<Rightarrow> completion_children rest completion_text
      | Inr True \<Rightarrow>
          (case bindE (message_content child) py_iter of
             Inl e \<Rightarrow> Inl e
           | Inr items \<Rightarrow>
               (case completion_items items completion_text of
                  Inl e \<Rightarrow> Inl e
                | Inr completion_text' \<Rightarrow> completion_children rest completion_text')))"

text \<open>Lines 262 to 264, \<^verbatim>\<open>token_delta[key] // max(1, new_cycles)\<close>.\<close>

definition token_share :: "per_message_data \<Rightarrow> string \<Rightarrow> error + pyval" where
  "token_share pmd k =
     bindE (py_item (pm_token_delta pmd) k) (\<lambda>v.
     bindE (py_max 1 (pm_new_cycles pmd)) (\<lambda>m.
     py_floordiv v m))"

text \<open>The time stamps of a cycle, the formatted \<^verbatim>\<open>call_id\<close> and \<^verbatim>\<open>trace_id\<close> and the
  constant fields of the result are left out of the records; none of them can raise.\<close>

record cycle_view =
  cv_cycle_id :: pyval
  cv_prompt :: string
  cv_completion :: string
  cv_duration_ms :: int

record llm_call =
  llm_cycle_id :: pyval
  llm_model :: string
  llm_duration_ms :: int
  llm_prompt :: string
  llm_completion :: string
  llm_prompt_tokens :: pyval
  llm_completion_tokens :: pyval
  llm_total_tokens :: pyval

text \<open>Lines 229 to 266, the body of the loop for the trace at position \<open>i\<close>.\<close>

definition build_cycle ::
  "string \<Rightarrow> string \<Rightarrow> per_message_data \<Rightarrow> nat \<Rightarrow> pyval \<Rightarrow> error + cycle_view \<times> llm_call"
where
  "build_cycle response_text actual_model pmd i trace =
     bindE (py_get trace ''id'' (VStr (''cycle_'' @ str_of_nat (i + 1)))) (\<lambda>cycle_id.
     bindE (bindE (py_get trace ''children'' (VList [])) py_iter) (\<lambda>children.
     bindE (completion_children children []) (\<lambda>completion_text.
     bindE (duration_ms_of trace) (\<lambda>duration_ms.
     bindE (token_share pmd ''inputTokens'') (\<lambda>p_tok.
     bindE (token_share pmd ''outputTokens'') (\<lambda>c_tok.
     bindE (token_share pmd ''totalTokens'') (\<lambda>t_tok.
     (let completion =
            (if py_strip completion_text \<noteq> [] then py_strip completion_text
             else response_text)
      in Inr (\<lparr>cv_cycle_id = cycle_id, cv_prompt = ''User message'',
                cv_completion = completion, cv_duration_ms = duration_ms\<rparr>,
              \<lparr>llm_cycle_id = cycle_id, llm_model = actual_model,
                llm_duration_ms = duration_ms, llm_prompt = ''User message'',
                llm_completion = completion, llm_prompt_tokens = p_tok,
                llm_completion_tokens = c_tok, llm_total_tokens = t_tok\<rparr>)))))))))"

text \<open>Lines 228 to 266, \<^verbatim>\<open>for i, trace in enumerate(per_message_data['new_traces'])\<close>.\<close>

fun build_cycles ::
  "string \<Rightarrow> string \<Rightarrow> per_message_data \<Rightarrow> nat \<Rightarrow> pyval list \<Rightarrow>
   error + cycle_view list \<times> llm_call list"
where
  "build_cycles response_text actual_model pmd i [] = Inr ([], [])"
| "build_cycles response_text actual_model pmd i (trace # rest) =
     (case build_cycle response_text actual_model pmd i trace of
        Inl e \<Rightarrow> Inl e
      | Inr (c, l) \<Rightarrow>
          (case build_cycles response_text actual_model pmd (i + 1) rest of
             Inl e \<Rightarrow> Inl e
           | Inr (cs, ls) \<Rightarrow> Inr (c # cs, l # ls)))"

subsection \<open>The per-message record\<close>

record ui_tool_call =
  ut_tool_id :: pyval
  ut_tool_name :: pyval
  ut_parameters :: pyval
  ut_result :: pyval

text \<open>Lines 269 to 278; the tool calls are dictionaries built by the extraction, so no
  lookup in them can fail.\<close>

definition convert_tool_call :: "tool_call \<Rightarrow> ui_tool_call" where
  "convert_tool_call tool_data =
     \<lparr>ut_tool_id = tc_id tool_data, ut_tool_name = tc_name tool_data,
      ut_parameters = tc_parameters tool_data, ut_result = tc_result tool_data\<rparr>"

text \<open>The three token counts appear twice in the result, under \<^verbatim>\<open>agent_attributes\<close> and
  under \<^verbatim>\<open>total_tokens\<close>; the record has them once. \<open>debug_new_cycles\<close> is
  \<^verbatim>\<open>debug_info['new_cycles']\<close>.\<close>

record ui_trace =
  message_id :: string
  response_text :: string
  ui_agent_name :: string
  request_model :: string
  prompt_tokens :: pyval
  completion_tokens :: pyval
  total_tokens :: pyval
  cycles :: "cycle_view list"
  llm_calls :: "llm_call list"
  ui_tool_calls :: "ui_tool_call list"
  total_duration_ms :: pyval
  ui_metrics_summary :: pyval
  debug_new_cycles :: pyval
  debug_message_contents :: "pyval list"
  debug_new_traces :: pyval

text \<open>\<^verbatim>\<open>convert_to_ui_format\<close> (lines 174 to 318). The lookups
  \<^verbatim>\<open>per_message_data['token_delta'][key]\<close> in the message of the \<^verbatim>\<open>print\<close> of line 280 and in
  the returned dictionary raise when the key is missing; the \<^verbatim>\<open>print\<close> itself raises what
  the standard output \<open>out\<close> raises.\<close>

definition convert_to_ui_format ::
  "error option \<Rightarrow> agent_response \<Rightarrow> per_message_data \<Rightarrow> string \<Rightarrow> agent option \<Rightarrow>
   error + ui_trace"
where
  "convert_to_ui_format out agent_response pmd msg_id agent =
     (let resp_text = (if response_truthy agent_response then response_str agent_response else [])
      in
     bindE (actual_model_of agent) (\<lambda>actual_model.
     bindE (py_iter (pm_new_traces pmd)) (\<lambda>traces.
     bindE (build_cycles resp_text actual_model pmd 0 traces) (\<lambda>(cs, ls).
     bindE (py_item (pm_token_delta pmd) ''totalTokens'') (\<lambda>_.
     bindE (py_print out) (\<lambda>_.
     bindE (py_item (pm_token_delta pmd) ''inputTokens'') (\<lambda>p_tok.
     bindE (py_item (pm_token_delta pmd) ''outputTokens'') (\<lambda>c_tok.
     bindE (py_item (pm_token_delta pmd) ''totalTokens'') (\<lambda>t_tok.
     Inr \<lparr>message_id = msg_id, response_text = resp_text,
          ui_agent_name = agent_name_of agent, request_model = actual_model,
          prompt_tokens = p_tok, completion_tokens = c_tok, total_tokens = t_tok,
          cycles = cs, llm_calls = ls,
          ui_tool_calls = map convert_tool_call (pm_tool_calls pmd),
          total_duration_ms = pm_latency_ms pmd,
          ui_metrics_summary = pm_metrics_summary pmd,
          debug_new_cycles = pm_new_cycles pmd,
          debug_message_contents = pm_message_contents pmd,
          debug_new_traces = pm_new_traces pmd\<rparr>)))))))))"

section \<open>The entry points\<close>

text \<open>\<^verbatim>\<open>try: return body\<close> with the handler
  \<^verbatim>\<open>except Exception as e: print(...); return None\<close> (lines 28 and 44 to 46, lines 356 and
  432 to 434): an exception of the body is caught, the message is written, and the result
  is \<open>None\<close>. What the \<^verbatim>\<open>print\<close> of the handler raises is not caught by anything and goes
  to the caller.\<close>

definition except_handler :: "error option \<Rightarrow> error + 'a \<Rightarrow> error + 'a option" where
  "except_handler out body =
     (case body of
        Inr x \<Rightarrow> Inr (Some x)
      | Inl e \<Rightarrow> bindE (py_print out) (\<lambda>_. Inr None))"

text \<open>Lines 33 and 34: a missing or empty message id is replaced by one made from the clock,
  where \<open>clock\<close> is \<^verbatim>\<open>int(time.time() * 1000000)\<close> at the call.\<close>

definition resolve_message_id :: "string option \<Rightarrow> nat \<Rightarrow> string" where
  "resolve_message_id msg_id clock =
     (case msg_id of
        Some m \<Rightarrow> if m \<noteq> [] then m else ''msg_'' @ str_of_nat clock
      | None \<Rightarrow> ''msg_'' @ str_of_nat clock)"

text \<open>\<^verbatim>\<open>extract_strands_trace_data\<close> (lines 20 to 46), the main entry point. The
  \<^verbatim>\<open>hasattr\<close> of line 24 and the \<^verbatim>\<open>print\<close> of line 25 come before the \<^verbatim>\<open>try\<close>, so what they
  raise goes to the caller. The state changes that \<^verbatim>\<open>calculate_per_message_metrics\<close> made
  stay when an exception is caught.\<close>

definition extract_strands_trace_data ::
  "agent_response \<Rightarrow> string option \<Rightarrow> agent option \<Rightarrow> nat \<Rightarrow> engine_state \<Rightarrow>
   (error + ui_trace option) \<times> engine_state"
where
  "extract_strands_trace_data agent_response msg_id agent clock s =
     (case metrics agent_response of
        ProbeRaises e \<Rightarrow> (Inl e, s)
      | NoMetrics \<Rightarrow> (bindE (py_print (stdout_error s)) (\<lambda>_. Inr None), s)
      | Metrics (Inl e) \<Rightarrow> (except_handler (stdout_error s) (Inl e), s)
      | Metrics (Inr summary) \<Rightarrow>
          (case calculate_per_message_metrics summary agent s of
             (r, s') \<Rightarrow>
               (except_handler (stdout_error s)
                  (bindE r (\<lambda>per_message_data.
                   convert_to_ui_format (stdout_error s) agent_response
                     (per_message_data\<lparr>pm_metrics_summary := summary\<rparr>)
                     (resolve_message_id msg_id clock) agent)),
                s')))"

subsection \<open>The extraction loops of the companion entry point\<close>

text \<open>
  Lines 377 to 411 of \<^verbatim>\<open>extract_direct_metrics_from_response\<close> repeat the loops of lines
  122 to 156 with one difference: the \<^verbatim>\<open>break\<close> of line 404 is inside the
  \<^verbatim>\<open>if other_child.get('message', {}).get('content')\<close> of line 397. A sibling that passes
  the test of line 395 but has no content does not end the scan here; the scan goes on to
  the next sibling.
\<close>

text \<open>\<^verbatim>\<open>other_child.get('message', {}).get('content')\<close>.\<close>

definition sibling_content :: "pyval \<Rightarrow> error + pyval" where
  "sibling_content other_child =
     bindE (py_get other_child ''message'' (VDict fmempty)) (\<lambda>msg.
     py_get msg ''content'' VNone)"

text \<open>Lines 394 to 404. On a sibling with content, \<open>sibling_result\<close> runs the loops of lines
  398 to 403 (the same as lines 143 to 148), and the scan ends.\<close>

fun find_tool_result_direct :: "pyval list \<Rightarrow> pyval \<Rightarrow> error + pyval" where
  "find_tool_result_direct [] tool_id = Inr (VStr [])"
| "find_tool_result_direct (other_child # rest) tool_id =
     (case sibling_matches other_child tool_id of
        Inl e \<Rightarrow> Inl e
      | Inr False \<Rightarrow> find_tool_result_direct rest tool_id
      | Inr True \<Rightarrow>
          (case sibling_content other_child of
             Inl e \<Rightarrow> Inl e
           | Inr c \<Rightarrow>
               if py_truthy c then sibling_result other_child
               else find_tool_result_direct rest tool_id))"

text \<open>Lines 387 to 411.\<close>

definition tool_call_of_direct :: "pyval list \<Rightarrow> pyval \<Rightarrow> error + tool_call" where
  "tool_call_of_direct children tool_use =
     bindE (py_get tool_use ''toolUseId'' (VStr [])) (\<lambda>tool_id.
     bindE (py_get tool_use ''name'' (VStr ''unknown'')) (\<lambda>tool_name.
     bindE (py_get tool_use ''input'' (VDict fmempty)) (\<lambda>tool_input.
     bindE (find_tool_result_direct children tool_id) (\<lambda>tool_result.
     Inr \<lparr>tc_id = tool_id, tc_name = tool_name,
          tc_parameters = tool_input, tc_result = tool_result\<rparr>))))"

text \<open>Lines 382 to 411, \<^verbatim>\<open>for item in content\<close>.\<close>

fun extract_items_direct ::
  "pyval list \<Rightarrow> pyval list \<Rightarrow> pyval list \<times> tool_call list \<Rightarrow> error + pyval list \<times> tool_call list"
where
  "extract_items_direct children [] acc = Inr acc"
| "extract_items_direct children (item # rest) (message_contents, tool_calls) =
     (case dict_field item ''text'' of
        Some t \<Rightarrow> extract_items_direct children rest (message_contents @ [t], tool_calls)
      | None \<Rightarrow>
          (case dict_field item ''toolUse'' of
             Some tool_use \<Rightarrow>
               (case tool_call_of_direct children tool_use of
                  Inl e \<Rightarrow> Inl e
                | Inr tc \<Rightarrow>
                    extract_items_direct children rest (message_contents, tool_calls @ [tc]))
           | None \<Rightarrow> extract_items_direct children rest (message_contents, tool_calls)))"

text \<open>Lines 378 to 411, \<^verbatim>\<open>for child in trace.get('children', [])\<close>.\<close>

fun extract_children_direct ::
  "pyval list \<Rightarrow> pyval list \<Rightarrow> pyval list \<times> tool_call list \<Rightarrow> error + pyval list \<times> tool_call list"
where
  "extract_children_direct children [] acc = Inr acc"
| "extract_children_direct children (child # rest) acc =
     (case is_assistant_step child of
        Inl e \<Rightarrow> Inl e
      | Inr False \<Rightarrow> extract_children_direct children rest acc
      | Inr True \<Rightarrow>
          (case bindE (message_content child) py_iter of
             Inl e \<Rightarrow> Inl e
           | Inr items \<Rightarrow>
               (case extract_items_direct children items acc of
                  Inl e \<Rightarrow> Inl e
                | Inr acc' \<Rightarrow> extract_children_direct children rest acc')))"

text \<open>Lines 377 to 411, \<^verbatim>\<open>for trace in new_traces\<close>.\<close>

fun extract_traces_direct ::
  "pyval list \<Rightarrow> pyval list \<times> tool_call list \<Rightarrow> error + pyval list \<times> tool_call list"
where
  "extract_traces_direct [] acc = Inr acc"
| "extract_traces_direct (trace # rest) acc =
     (case bindE (py_get trace ''children'' (VList [])) py_iter of
        Inl e \<Rightarrow> Inl e
      | Inr children \<Rightarrow>
          (case extract_children_direct children children acc of
             Inl e \<Rightarrow> Inl e
           | Inr acc' \<Rightarrow> extract_traces_direct rest acc'))"

definition extract_content_direct :: "pyval \<Rightarrow> error + pyval list \<times> tool_call list" where
  "extract_content_direct new_traces =
     bindE (py_iter new_traces) (\<lambda>traces. extract_traces_direct traces ([], []))"

text \<open>Lines 365 to 430, the body of the \<^verbatim>\<open>try\<close> in
  \<^verbatim>\<open>extract_direct_metrics_from_response\<close>: all traces are new and the cumulative counters
  are the deltas.\<close>

definition direct_metrics :: "pyval \<Rightarrow> error + per_message_data" where
  "direct_metrics summary =
     bindE (py_get summary ''accumulated_usage'' (VDict fmempty)) (\<lambda>current_usage.
     bindE (py_get summary ''total_cycles'' (VInt 0)) (\<lambda>current_cycles.
     bindE (py_get summary ''accumulated_metrics'' (VDict fmempty)) (\<lambda>am.
     bindE (py_get am ''latencyMs'' (VInt 0)) (\<lambda>current_latency.
     bindE (py_get summary ''traces'' (VList [])) (\<lambda>all_traces.
     bindE (extract_content_direct all_traces) (\<lambda>(message_contents, tool_calls).
     bindE (py_get current_usage ''inputTokens'' (VInt 0)) (\<lambda>v_in.
     bindE (py_get current_usage ''outputTokens'' (VInt 0)) (\<lambda>v_out.
     bindE (py_get current_usage ''totalTokens'' (VInt 0)) (\<lambda>v_tot.
     bindE (py_get summary ''tool_usage'' (VDict fmempty)) (\<lambda>tool_usage.
     Inr \<lparr>pm_token_delta =
            VDict (fmap_of_list
              [(''inputTokens'', v_in), (''outputTokens'', v_out), (''totalTokens'', v_tot)]),
          pm_new_cycles = current_cycles, pm_latency_ms = current_latency,
          pm_message_contents = message_contents, pm_tool_calls = tool_calls,
          pm_tool_usage = tool_usage, pm_new_traces = all_traces,
          pm_metrics_summary = summary\<rparr>))))))))))"

text \<open>\<^verbatim>\<open>extract_direct_metrics_from_response\<close> (lines 345 to 434), the companion entry point
  for single-use agents. The \<^verbatim>\<open>hasattr\<close> of line 352 and the \<^verbatim>\<open>print\<close> of line 353 come
  before the \<^verbatim>\<open>try\<close>. The source neither reads nor writes the two global dictionaries; the
  state is passed through so that both entry points have the same shape.\<close>

definition extract_direct_metrics_from_response ::
  "agent_response \<Rightarrow> string option \<Rightarrow> nat \<Rightarrow> engine_state \<Rightarrow>
   (error + ui_trace option) \<times> engine_state"
where
  "extract_direct_metrics_from_response agent_response msg_id clock s =
     (case metrics agent_response of
        ProbeRaises e \<Rightarrow> (Inl e, s)
      | NoMetrics \<Rightarrow> (bindE (py_print (stdout_error s)) (\<lambda>_. Inr None), s)
      | Metrics get_summary \<Rightarrow>
          (except_handler (stdout_error s)
             (bindE get_summary (\<lambda>summary.
              bindE (direct_metrics summary) (\<lambda>dm.
              convert_to_ui_format (stdout_error s) agent_response dm
                (resolve_message_id msg_id clock) None))),
           s))"

section \<open>Notions used in the statements\<close>


text \<open>The snapshot that a call finds: none without an agent object.\<close>

definition previous_snapshot :: "agent option \<Rightarrow> engine_state \<Rightarrow> snapshot option" where
  "previous_snapshot agent_obj s =
     (case agent_obj of None \<Rightarrow> None | Some a \<Rightarrow> agent_snapshots s (agent_id a))"

definition usage_keys :: "string list" where
  "usage_keys = [''inputTokens'', ''outputTokens'', ''totalTokens'']"

text \<open>A value is a non-negative integer; the five deltas of a per-message dictionary are
  non-negative integers (a usage key that the delta dictionary lacks has no delta).\<close>

definition is_nonneg :: "pyval \<Rightarrow> bool" where
  "is_nonneg v = (case v of VInt i \<Rightarrow> 0 \<le> i | _ \<Rightarrow> False)"

definition nonneg_deltas :: "per_message_data \<Rightarrow> bool" where
  "nonneg_deltas pmd =
     (list_all (\<lambda>k. case dict_field (pm_token_delta pmd) k of
                      None \<Rightarrow> True
                    | Some v \<Rightarrow> is_nonneg v) usage_keys
      \<and> is_nonneg (pm_new_cycles pmd)
      \<and> is_nonneg (pm_latency_ms pmd))"

text \<open>The cumulative counters of a summary are not negative, as far as they are integers.\<close>

definition not_negative :: "pyval \<Rightarrow> bool" where
  "not_negative v = (case v of VInt i \<Rightarrow> 0 \<le> i | _ \<Rightarrow> True)"

definition nonneg_counters :: "pyval \<Rightarrow> bool" where
  "nonneg_counters summary =
     (case read_counters summary of
        Inl e \<Rightarrow> True
      | Inr (curr_usage, curr_cycles, curr_latency) \<Rightarrow>
          list_all (\<lambda>k. case dict_field curr_usage k of
                           None \<Rightarrow> True
                         | Some v \<Rightarrow> not_negative v) usage_keys
          \<and> not_negative curr_cycles
          \<and> not_negative curr_latency)"

definition is_int :: "pyval \<Rightarrow> bool" where
  "is_int v = (case v of VInt i \<Rightarrow> True | _ \<Rightarrow> False)"

text \<open>A sequence of observations of one agent through the delta calculation.\<close>

fun observe_all ::
  "agent \<Rightarrow> pyval list \<Rightarrow> engine_state \<Rightarrow> (error + per_message_data) list"
where
  "observe_all a [] s = []"
| "observe_all a (summary # rest) s =
     (case calculate_per_message_metrics summary (Some a) s of
        (r, s') \<Rightarrow> r # observe_all a rest s')"

section \<open>Sequences of observations\<close>

text \<open>One call of an entry point: of the main one, with or without an agent object, or of
  the companion one for single-use agents.\<close>

datatype observation =
    Tracked agent_response "string option" "agent option" nat
  | Ephemeral agent_response "string option" nat

fun is_tracked :: "observation \<Rightarrow> bool" where
  "is_tracked (Tracked r m a c) = True"
| "is_tracked (Ephemeral r m c) = False"

fun observe :: "observation \<Rightarrow> engine_state \<Rightarrow> (error + ui_trace option) \<times> engine_state" where
  "observe (Tracked r m a c) s = extract_strands_trace_data r m a c s"
| "observe (Ephemeral r m c) s = extract_direct_metrics_from_response r m c s"

text \<open>A sequence of calls with no reset in between; the log pairs every call with what it
  returned.\<close>

fun run ::
  "observation list \<Rightarrow> engine_state \<Rightarrow>
   (observation \<times> (error + ui_trace option)) list \<times> engine_state"
where
  "run [] s = ([], s)"
| "run (ob # obs) s =
     (case observe ob s of
        (r, s') \<Rightarrow> (case run obs s' of (log, s'') \<Rightarrow> ((ob, r) # log, s'')))"

text \<open>A call returned a record.\<close>

definition returned :: "error + ui_trace option \<Rightarrow> bool" where
  "returned r = (case r of Inr (Some rec) \<Rightarrow> True | _ \<Rightarrow> False)"

text \<open>Every call, whichever entry point it went through.\<close>

definition any_call :: "observation \<Rightarrow> bool" where
  "any_call ob = True"

text \<open>The delta of a returned record that belongs to a key of the session totals.\<close>

definition int_of :: "pyval \<Rightarrow> int" where
  "int_of v = (case v of VInt i \<Rightarrow> i | _ \<Rightarrow> 0)"

definition counter_keys :: "string list" where
  "counter_keys = [''inputTokens'', ''outputTokens'', ''totalTokens'', ''cycles'', ''latencyMs'']"

definition delta_of :: "string \<Rightarrow> ui_trace \<Rightarrow> pyval" where
  "delta_of k r =
     (if k = ''inputTokens'' then prompt_tokens r
      else if k = ''outputTokens'' then completion_tokens r
      else if k = ''totalTokens'' then total_tokens r
      else if k = ''cycles'' then debug_new_cycles r
      else total_duration_ms r)"

text \<open>The sum, over the records in a log that satisfy \<open>P\<close> of their call, of the delta for a
  key.\<close>

fun sum_deltas ::
  "(observation \<Rightarrow> bool) \<Rightarrow> string \<Rightarrow> (observation \<times> (error + ui_trace option)) list \<Rightarrow> int"
where
  "sum_deltas P k [] = 0"
| "sum_deltas P k ((ob, r) # log) =
     (case r of
        Inr (Some rec) \<Rightarrow> (if P ob then int_of (delta_of k rec) else 0) + sum_deltas P k log
      | _ \<Rightarrow> sum_deltas P k log)"

section \<open>Reference definitions and example inputs\<close>

text \<open>The first attribute of a list of probes that is present.\<close>

fun first_present :: "attr list \<Rightarrow> (error + string) option" where
  "first_present [] = None"
| "first_present (NoAttr # rest) = first_present rest"
| "first_present (Attr r # rest) = Some r"

text \<open>All text blocks inside the \<open>toolResult\<close> blocks of a message content, in order.\<close>

definition block_texts :: "pyval list \<Rightarrow> pyval list" where
  "block_texts content_items = List.map_filter (\<lambda>ci. dict_field ci ''text'') content_items"

definition result_content_of :: "pyval \<Rightarrow> pyval list" where
  "result_content_of tool_result_block =
     (case dict_field tool_result_block ''content'' of Some (VList cis) \<Rightarrow> cis | _ \<Rightarrow> [])"

definition result_texts :: "pyval list \<Rightarrow> pyval list" where
  "result_texts result_items =
     concat (map (\<lambda>ri. case dict_field ri ''toolResult'' of
                          Some tr \<Rightarrow> block_texts (result_content_of tr)
                        | None \<Rightarrow> [])
                 result_items)"

text \<open>A result item is regular when its \<open>toolResult\<close>, if it has one, is a dictionary whose
  \<open>content\<close>, if it has one, is a list.\<close>

definition regular_result_item :: "pyval \<Rightarrow> bool" where
  "regular_result_item ri =
     (case dict_field ri ''toolResult'' of
        None \<Rightarrow> True
      | Some (VDict d) \<Rightarrow>
          (case fmlookup d ''content'' of None \<Rightarrow> True | Some (VList cis) \<Rightarrow> True | _ \<Rightarrow> False)
      | Some _ \<Rightarrow> False)"

text \<open>A cumulative summary with the given counters and traces, a turn result that carries
  it, and an agent without a model.\<close>

definition usage_of :: "int \<Rightarrow> int \<Rightarrow> int \<Rightarrow> pyval" where
  "usage_of i ou t =
     VDict (fmap_of_list
       [(''inputTokens'', VInt i), (''outputTokens'', VInt ou), (''totalTokens'', VInt t)])"

definition summary_of :: "pyval \<Rightarrow> int \<Rightarrow> int \<Rightarrow> pyval list \<Rightarrow> pyval" where
  "summary_of usage c l traces =
     VDict (fmap_of_list
       [(''accumulated_usage'', usage),
        (''total_cycles'', VInt c),
        (''accumulated_metrics'', VDict (fmap_of_list [(''latencyMs'', VInt l)])),
        (''traces'', VList traces)])"

definition response_of :: "pyval \<Rightarrow> agent_response" where
  "response_of summary =
     \<lparr>metrics = Metrics (Inr summary), response_truthy = True, response_str = ''done''\<rparr>"

text \<open>A turn result whose \<^verbatim>\<open>metrics\<close> property raises an exception that is not an
  AttributeError, and a state whose standard output cannot encode the messages.\<close>

definition raising_response :: agent_response where
  "raising_response =
     \<lparr>metrics = ProbeRaises OtherException, response_truthy = True, response_str = ''done''\<rparr>"

definition mute_state :: engine_state where
  "mute_state = initial_state\<lparr>stdout_error := Some ValueError\<rparr>"


definition plain_agent :: "nat \<Rightarrow> agent" where
  "plain_agent n =
     \<lparr>agent_id = n, agent_truthy = True, agent_model = None, agent_name = None,
      agent_class_name = ''Agent''\<rparr>"

text \<open>The state after the agent with identity 1 has been observed once with the counters
  10, 5, 15, 2 and 300.\<close>

definition tracked_state :: engine_state where
  "tracked_state =
     \<lparr>agent_snapshots =
        [1 \<mapsto> \<lparr>snap_inputTokens = VInt 10, snap_outputTokens = VInt 5,
                snap_totalTokens = VInt 15, snap_cycles = VInt 2,
                snap_latencyMs = VInt 300\<rparr>],
      session_totals =
        [''inputTokens'' \<mapsto> 10, ''outputTokens'' \<mapsto> 5, ''totalTokens'' \<mapsto> 15,
         ''cycles'' \<mapsto> 2, ''latencyMs'' \<mapsto> 300],
      stdout_error = None\<rparr>"

text \<open>A summary whose usage mapping has no \<open>outputTokens\<close>.\<close>

definition partial_summary :: pyval where
  "partial_summary =
     summary_of (VDict (fmap_of_list [(''inputTokens'', VInt 10), (''totalTokens'', VInt 15)]))
       2 300 []"

text \<open>Two observations of the agent with identity 1 through the main entry point, with an
  observation of a single-use agent through the companion entry point in between.\<close>

definition example_run :: "observation list" where
  "example_run =
     [Tracked (response_of (summary_of (usage_of 10 5 15) 2 300 [])) None (Some (plain_agent 1)) 0,
      Ephemeral (response_of (summary_of (usage_of 5 5 10) 1 100 [])) None 1,
      Tracked (response_of (summary_of (usage_of 18 9 27) 3 450 [])) None (Some (plain_agent 1)) 2]"

text \<open>A model object with none of the identifier attributes, of a class that no provider
  pattern matches.\<close>

definition custom_model :: model_obj where
  "custom_model =
     \<lparr>model_id = NoAttr, model = NoAttr, model_name = NoAttr, private_model_id = NoAttr,
      dict_model_id = NoAttr, class_name = Inr ''CustomModel''\<rparr>"

text \<open>The cycle node of the tool-join example: an assistant step with a \<open>toolUse\<close> block and
  a tool step whose \<open>toolResult\<close> holds the given content blocks.\<close>

definition text_block :: "string \<Rightarrow> pyval" where
  "text_block t = VDict (fmap_of_list [(''text'', VStr t)])"

definition tool_use_of :: "string \<Rightarrow> pyval" where
  "tool_use_of tid =
     VDict (fmap_of_list
       [(''toolUseId'', VStr tid), (''name'', VStr ''calc''), (''input'', VDict fmempty)])"

definition tool_use_block :: "string \<Rightarrow> pyval" where
  "tool_use_block tid = VDict (fmap_of_list [(''toolUse'', tool_use_of tid)])"

definition assistant_step :: "string \<Rightarrow> pyval" where
  "assistant_step tid =
     VDict (fmap_of_list
       [(''name'', VStr ''stream_messages''),
        (''message'', VDict (fmap_of_list
           [(''role'', VStr ''assistant''), (''content'', VList [tool_use_block tid])]))])"

definition tool_result_block :: "string \<Rightarrow> pyval list \<Rightarrow> pyval" where
  "tool_result_block tid blocks =
     VDict (fmap_of_list
       [(''toolResult'', VDict (fmap_of_list
          [(''toolUseId'', VStr tid), (''content'', VList blocks)]))])"

definition tool_message :: "string \<Rightarrow> pyval list \<Rightarrow> pyval" where
  "tool_message tid blocks =
     VDict (fmap_of_list
       [(''role'', VStr ''user''), (''content'', VList [tool_result_block tid blocks])])"

definition tool_step :: "string \<Rightarrow> pyval list \<Rightarrow> pyval" where
  "tool_step tid blocks =
     VDict (fmap_of_list
       [(''name'', VStr ''Tool: calc''),
        (''metadata'', VDict (fmap_of_list [(''toolUseId'', VStr tid)])),
        (''message'', tool_message tid blocks)])"

text \<open>A tool step that passes the test on a sibling but has no message.\<close>

definition silent_tool_step :: "string \<Rightarrow> pyval" where
  "silent_tool_step tid =
     VDict (fmap_of_list
       [(''name'', VStr ''Tool: calc''),
        (''metadata'', VDict (fmap_of_list [(''toolUseId'', VStr tid)]))])"

definition cycle_node :: "pyval list \<Rightarrow> pyval" where
  "cycle_node children = VDict (fmap_of_list [(''children'', VList children)])"

section \<open>Basic facts\<close>

lemma bindE_Inl [simp]: "bindE (Inl e) f = Inl e"
  by (simp add: bindE_def)

lemma bindE_Inr [simp]: "bindE (Inr x) f = f x"
  by (simp add: bindE_def)

lemma bindE_eq_Inr: "bindE m f = Inr y \<longleftrightarrow> (\<exists>x. m = Inr x \<and> f x = Inr y)"
  by (cases m) simp_all

text \<open>The definitions that evaluate the engine on a concrete input.\<close>

lemmas py_defs =
  py_get_def py_item_def py_truthy_def py_iter_def py_len_def py_sub_def py_max_def
  py_floordiv_def py_less_int_def py_contains_def dict_field_def
  slice_bound_def slice_list_def slice_index_def py_slice_def slice_new_traces_def

lemmas extract_defs =
  is_assistant_step_def message_content_def sibling_matches_def sibling_result_def
  tool_call_of_def extract_content_def sibling_content_def tool_call_of_direct_def
  extract_content_direct_def

lemmas calc_defs =
  read_counters_def clamped_diff_def usage_delta_def compute_delta_def take_snapshot_def
  add_total_def accumulate_def collect_message_def save_snapshot_def
  calculate_per_message_metrics_def

lemmas view_defs =
  actual_model_of_def agent_name_of_def display_model_name_def probe_model_def
  model_from_class_def provider_of_class_def duration_ms_of_def token_share_def
  build_cycle_def convert_tool_call_def convert_to_ui_format_def

lemmas entry_defs =
  py_print_def except_handler_def resolve_message_id_def extract_strands_trace_data_def
  direct_metrics_def extract_direct_metrics_from_response_def

lemmas example_defs =
  usage_of_def summary_of_def response_of_def plain_agent_def custom_model_def
  text_block_def tool_use_of_def tool_use_block_def assistant_step_def
  tool_result_block_def tool_message_def tool_step_def cycle_node_def initial_state_def
  tracked_state_def raising_response_def mute_state_def silent_tool_step_def

lemma take_drop_nth:
  "take (h - l) (drop l xs) = map (\<lambda>i. xs ! i) [l ..< min h (length xs)]"
proof (rule nth_equalityI)
  show "length (take (h - l) (drop l xs)) = length (map (\<lambda>i. xs ! i) [l ..< min h (length xs)])"
    by simp
next
  fix i assume "i < length (take (h - l) (drop l xs))"
  then have "i < h - l" "l + i < length xs" by auto
  then show "take (h - l) (drop l xs) ! i = map (\<lambda>i. xs ! i) [l ..< min h (length xs)] ! i"
    by simp
qed

text \<open>With bounds that are not negative, the slice is the elements at the positions from
  \<open>lo\<close> up to, and without, \<open>hi\<close>, as far as the list goes.\<close>

lemma slice_list_nth:
  assumes "0 \<le> lo" and "0 \<le> hi"
  shows "slice_list xs lo hi = map (\<lambda>i. xs ! i) [nat lo ..< min (nat hi) (length xs)]"
proof (cases "nat lo \<le> length xs")
  case True
  then have l: "slice_bound (length xs) lo = nat lo"
    using assms by (simp add: slice_bound_def)
  have h: "slice_bound (length xs) hi = min (length xs) (nat hi)"
    using assms by (simp add: slice_bound_def)
  show ?thesis
    unfolding slice_list_def Let_def l h take_drop_nth by (simp add: min.commute)
next
  case False
  then show ?thesis
    using assms by (simp add: slice_list_def slice_bound_def Let_def)
qed

section \<open>The trace slicer\<close>

text \<open>
  Claim C7. For every trace list, previous cycle index and current cycle index: when the
  previous cycle index is below the length of the trace list, the slicer returns the slice
  \<^verbatim>\<open>traces[previous:current]\<close>; otherwise it returns the empty list. It returns in both cases,
  also when the list is shorter than the reported cycle count. For indices that are not
  negative the slice is the traces at the positions from the previous index up to, and
  without, the current one, as far as the list goes.
\<close>

theorem trace_slicer_safe:
  "slice_new_traces (VList traces) (VInt prev) (VInt cur) =
     Inr (VList (if prev < int (length traces) then slice_list traces prev cur else []))
   \<and> (0 \<le> prev \<longrightarrow> 0 \<le> cur \<longrightarrow>
        slice_list traces prev cur
          = map (\<lambda>i. traces ! i) [nat prev ..< min (nat cur) (length traces)])"
  by (simp add: slice_new_traces_def py_len_def py_less_int_def py_slice_def slice_index_def
                slice_list_nth)

theorem trace_slicer_safe_witness:
  "slice_new_traces (VList [VInt 10, VInt 11, VInt 12]) (VInt 1) (VInt 3)
     = Inr (VList [VInt 11, VInt 12])
   \<and> slice_new_traces (VList [VInt 10, VInt 11, VInt 12]) (VInt 5) (VInt 7) = Inr (VList [])"
  using trace_slicer_safe [of "[VInt 10, VInt 11, VInt 12]" 1 3]
        trace_slicer_safe [of "[VInt 10, VInt 11, VInt 12]" 5 7]
  by (simp add: slice_list_def slice_bound_def)

section \<open>The delta calculation\<close>

lemma clamped_diff_Inr:
  "clamped_diff a b = Inr v \<longleftrightarrow> (\<exists>x y. a = VInt x \<and> b = VInt y \<and> v = VInt (max 0 (x - y)))"
  by (auto simp: clamped_diff_def py_sub_def py_max_def split: pyval.splits)

lemma usage_delta_Inr:
  "usage_delta cu k p = Inr v \<longleftrightarrow>
     (\<exists>c y. py_get cu k (VInt 0) = Inr (VInt c) \<and> p = VInt y \<and> v = VInt (max 0 (c - y)))"
  by (auto simp: usage_delta_def bindE_eq_Inr clamped_diff_Inr)

lemma compute_delta_None [simp]:
  "compute_delta cu cc cl None = Inr (cu, cc, cl)"
  by (simp add: compute_delta_def)

lemma compute_delta_Some:
  "compute_delta cu cc cl (Some prev) = Inr (du, dc, dl) \<longleftrightarrow>
     (\<exists>d_in d_out d_tot.
        usage_delta cu ''inputTokens'' (snap_inputTokens prev) = Inr d_in \<and>
        usage_delta cu ''outputTokens'' (snap_outputTokens prev) = Inr d_out \<and>
        usage_delta cu ''totalTokens'' (snap_totalTokens prev) = Inr d_tot \<and>
        clamped_diff cc (snap_cycles prev) = Inr dc \<and>
        clamped_diff cl (snap_latencyMs prev) = Inr dl \<and>
        du = VDict (fmap_of_list
               [(''inputTokens'', d_in), (''outputTokens'', d_out), (''totalTokens'', d_tot)]))"
  by (auto simp: compute_delta_def bindE_eq_Inr)

lemma collect_message_deltas:
  assumes "collect_message summ (du, dc, dl) cc prev = Inr pmd"
  shows "pm_token_delta pmd = du" and "pm_new_cycles pmd = dc" and "pm_latency_ms pmd = dl"
  using assms by (auto simp: collect_message_def bindE_eq_Inr split: prod.splits)

text \<open>What a call of \<open>calculate_per_message_metrics\<close> that returns has gone through.\<close>

lemma calculate_Inr:
  assumes "calculate_per_message_metrics summary agent_obj s = (Inr pmd, s')"
  shows "\<exists>cu cc cl du dc dl s1 totals.
           read_counters summary = Inr (cu, cc, cl) \<and>
           compute_delta cu cc cl (previous_snapshot agent_obj s) = Inr (du, dc, dl) \<and>
           save_snapshot agent_obj cu cc cl s = Inr s1 \<and>
           accumulate (session_totals s1) du dc dl = (None, totals) \<and>
           collect_message summary (du, dc, dl) cc (previous_snapshot agent_obj s) = Inr pmd \<and>
           s' = s1\<lparr>session_totals := totals\<rparr>"
  using assms
  by (auto simp: calculate_per_message_metrics_def previous_snapshot_def Let_def
           split: sum.splits prod.splits option.splits)



section \<open>The display name of the model\<close>

text \<open>
  Claim C8, as the code has it. The display name is the printable form of the first
  attribute present among \<^verbatim>\<open>model_id\<close>, \<^verbatim>\<open>model\<close>, \<^verbatim>\<open>model_name\<close>, \<^verbatim>\<open>_model_id\<close> and the
  \<^verbatim>\<open>__dict__\<close> entry \<^verbatim>\<open>model_id\<close>, in this order. When none is present it is the class name
  matched against the known providers, and the class name itself when no provider matches.
  It is "Unknown Model" only when the probing raises an AttributeError, a TypeError or a
  ValueError.
\<close>

theorem model_name_priority:
  "display_model_name m =
     (case first_present
             [model_id m, model m, model_name m, private_model_id m, dict_model_id m] of
        Some (Inr nm) \<Rightarrow> Inr nm
      | Some (Inl e) \<Rightarrow>
          if e = AttributeError \<or> e = TypeError \<or> e = ValueError
          then Inr ''Unknown Model'' else Inl e
      | None \<Rightarrow>
          (case class_name m of
             Inr cn \<Rightarrow>
               Inr (if str_contains ''Bedrock'' cn then ''BedrockModel''
                    else if str_contains ''Anthropic'' cn then ''AnthropicModel''
                    else if str_contains ''OpenAI'' cn then ''OpenAIModel''
                    else cn)
           | Inl e \<Rightarrow>
               if e = AttributeError \<or> e = TypeError \<or> e = ValueError
               then Inr ''Unknown Model'' else Inl e))"
  by (simp add: display_model_name_def probe_model_def model_from_class_def
                provider_of_class_def split: attr.splits sum.splits)

text \<open>A model with \<^verbatim>\<open>model_name\<close> and \<^verbatim>\<open>_model_id\<close> but neither \<^verbatim>\<open>model_id\<close> nor \<^verbatim>\<open>model\<close>
  is displayed by its \<^verbatim>\<open>model_name\<close>.\<close>

theorem model_name_priority_witness:
  "display_model_name
     (custom_model\<lparr>model_name := Attr (Inr ''nova''), private_model_id := Attr (Inr ''x'')\<rparr>)
   = Inr ''nova''"
  using model_name_priority
    [of "custom_model\<lparr>model_name := Attr (Inr ''nova''), private_model_id := Attr (Inr ''x'')\<rparr>"]
  by (simp add: custom_model_def)

text \<open>The claim as the specification states it fails: a model object with none of the
  identifier attributes, whose class name matches no provider, is displayed by its class
  name and not as "Unknown Model".\<close>

theorem unknown_model_counterexample:
  "actual_model_of (Some ((plain_agent 1)\<lparr>agent_model := Some custom_model\<rparr>))
     = Inr ''CustomModel''
   \<and> actual_model_of (Some ((plain_agent 1)\<lparr>agent_model := Some custom_model\<rparr>))
     \<noteq> Inr ''Unknown Model''"
  by (simp add: actual_model_of_def plain_agent_def custom_model_def display_model_name_def
                probe_model_def model_from_class_def provider_of_class_def)

section \<open>The entry points\<close>









text \<open>
  Claim C9. For every input, the companion entry point leaves the snapshot table and the
  session totals as they are, whereas the main entry point changes them: a first
  observation of an agent stores a snapshot and adds to the totals.
\<close>

theorem direct_entry_leaves_state:
  "snd (extract_direct_metrics_from_response resp mid clock s) = s
   \<and> snd (extract_strands_trace_data (response_of (summary_of (usage_of 10 5 15) 2 300 []))
            None (Some (plain_agent 1)) 0 initial_state) = tracked_state"
  by (simp add: extract_direct_metrics_from_response_def split: metrics_attr.splits)
     (simp add: py_defs extract_defs calc_defs view_defs entry_defs example_defs)

theorem direct_entry_leaves_state_witness:
  "snd (extract_direct_metrics_from_response (response_of (summary_of (usage_of 5 5 10) 1 100 []))
          None 0 tracked_state) = tracked_state
   \<and> tracked_state \<noteq> initial_state"
  using direct_entry_leaves_state
    [of "response_of (summary_of (usage_of 5 5 10) 1 100 [])" None 0 tracked_state]
  by (simp add: tracked_state_def initial_state_def)

section \<open>Non-negative deltas\<close>

lemma add_total_Inr:
  "add_total t k rhs = Inr t' \<longleftrightarrow>
     (\<exists>old d. t k = Some old \<and> rhs = Inr (VInt d) \<and> t' = t(k \<mapsto> old + d))"
  by (auto simp: add_total_def split: option.splits sum.splits pyval.splits)

lemma accumulate_None:
  assumes "accumulate t0 du dc dl = (None, t)"
  shows "\<exists>a b c d e i ou tt x y.
           t0 ''inputTokens'' = Some a \<and> t0 ''outputTokens'' = Some b \<and>
           t0 ''totalTokens'' = Some c \<and> t0 ''cycles'' = Some d \<and> t0 ''latencyMs'' = Some e \<and>
           py_get du ''inputTokens'' (VInt 0) = Inr (VInt i) \<and>
           py_get du ''outputTokens'' (VInt 0) = Inr (VInt ou) \<and>
           py_get du ''totalTokens'' (VInt 0) = Inr (VInt tt) \<and>
           dc = VInt x \<and> dl = VInt y \<and>
           t = t0(''inputTokens'' \<mapsto> a + i, ''outputTokens'' \<mapsto> b + ou,
                  ''totalTokens'' \<mapsto> c + tt, ''cycles'' \<mapsto> d + x, ''latencyMs'' \<mapsto> e + y)"
proof -
  from assms obtain t1 t2 t3 t4 where
    s1: "add_total t0 ''inputTokens'' (py_get du ''inputTokens'' (VInt 0)) = Inr t1" and
    s2: "add_total t1 ''outputTokens'' (py_get du ''outputTokens'' (VInt 0)) = Inr t2" and
    s3: "add_total t2 ''totalTokens'' (py_get du ''totalTokens'' (VInt 0)) = Inr t3" and
    s4: "add_total t3 ''cycles'' (Inr dc) = Inr t4" and
    s5: "add_total t4 ''latencyMs'' (Inr dl) = Inr t"
    by (auto simp: accumulate_def split: sum.splits)
  from s1 obtain a i where 1: "t0 ''inputTokens'' = Some a"
    "py_get du ''inputTokens'' (VInt 0) = Inr (VInt i)" "t1 = t0(''inputTokens'' \<mapsto> a + i)"
    by (auto simp: add_total_Inr)
  from s2 obtain b ou where 2: "t1 ''outputTokens'' = Some b"
    "py_get du ''outputTokens'' (VInt 0) = Inr (VInt ou)" "t2 = t1(''outputTokens'' \<mapsto> b + ou)"
    by (auto simp: add_total_Inr)
  from s3 obtain c tt where 3: "t2 ''totalTokens'' = Some c"
    "py_get du ''totalTokens'' (VInt 0) = Inr (VInt tt)" "t3 = t2(''totalTokens'' \<mapsto> c + tt)"
    by (auto simp: add_total_Inr)
  from s4 obtain d x where 4: "t3 ''cycles'' = Some d" "dc = VInt x" "t4 = t3(''cycles'' \<mapsto> d + x)"
    by (auto simp: add_total_Inr)
  from s5 obtain e y where 5: "t4 ''latencyMs'' = Some e" "dl = VInt y" "t = t4(''latencyMs'' \<mapsto> e + y)"
    by (auto simp: add_total_Inr)
  from 1 2 3 4 5 show ?thesis by simp
qed

lemma save_snapshot_Some_dict:
  assumes "save_snapshot (Some a) cu cc cl s = Inr s1"
  shows "\<exists>d. cu = VDict d"
  using assms
  by (cases cu) (simp_all add: save_snapshot_def take_snapshot_def py_get_def)

text \<open>One observation: the deltas are non-negative when a snapshot is stored for the agent,
  whatever the counters are, and when the counters themselves are not negative.\<close>

lemma nonneg_step:
  assumes run: "calculate_per_message_metrics summary (Some a) s = (Inr pmd, s')"
      and ok: "agent_snapshots s (agent_id a) \<noteq> None \<or> nonneg_counters summary"
  shows "nonneg_deltas pmd"
proof -
  from calculate_Inr [OF run] obtain cu cc cl du dc dl s1 totals where
    rc: "read_counters summary = Inr (cu, cc, cl)" and
    delta: "compute_delta cu cc cl (previous_snapshot (Some a) s) = Inr (du, dc, dl)" and
    save: "save_snapshot (Some a) cu cc cl s = Inr s1" and
    acc: "accumulate (session_totals s1) du dc dl = (None, totals)" and
    coll: "collect_message summary (du, dc, dl) cc (previous_snapshot (Some a) s) = Inr pmd"
    by blast
  note fields = collect_message_deltas [OF coll]
  show ?thesis
  proof (cases "agent_snapshots s (agent_id a)")
    case (Some prev)
    with delta fields show ?thesis
      by (auto simp: previous_snapshot_def compute_delta_Some usage_delta_Inr clamped_diff_Inr
                     nonneg_deltas_def usage_keys_def dict_field_def is_nonneg_def)
  next
    case None
    with ok have nn: "nonneg_counters summary" by simp
    from None delta have eq: "du = cu" "dc = cc" "dl = cl"
      by (simp_all add: previous_snapshot_def)
    from save obtain d where d: "cu = VDict d" using save_snapshot_Some_dict by blast
    from accumulate_None [OF acc] obtain i ou tt x y where
      g: "py_get du ''inputTokens'' (VInt 0) = Inr (VInt i)"
         "py_get du ''outputTokens'' (VInt 0) = Inr (VInt ou)"
         "py_get du ''totalTokens'' (VInt 0) = Inr (VInt tt)"
         "dc = VInt x" "dl = VInt y"
      by blast
    from nn rc g eq d fields show ?thesis
      by (auto simp: nonneg_counters_def nonneg_deltas_def usage_keys_def dict_field_def
                     is_nonneg_def not_negative_def py_get_def split: option.splits)
  qed
qed

text \<open>
  Claim C5, as the code has it. For every sequence of observations on one identity in
  which the supplied cumulative counters are not negative, every delta field that the
  delta calculation returns is greater than or equal to 0, also when the counters decrease
  between consecutive observations.
\<close>

theorem deltas_nonneg:
  assumes "list_all nonneg_counters summaries"
      and "Inr pmd \<in> set (observe_all a summaries s)"
  shows "nonneg_deltas pmd"
  using assms
proof (induction summaries arbitrary: s)
  case Nil
  then show ?case by simp
next
  case (Cons summary rest)
  obtain r s' where step: "calculate_per_message_metrics summary (Some a) s = (r, s')"
    by (cases "calculate_per_message_metrics summary (Some a) s") auto
  with Cons.prems(2) have "r = Inr pmd \<or> Inr pmd \<in> set (observe_all a rest s')" by auto
  then show ?case
  proof
    assume "r = Inr pmd"
    with step Cons.prems(1) show ?thesis by (auto intro: nonneg_step)
  next
    assume "Inr pmd \<in> set (observe_all a rest s')"
    with Cons.IH Cons.prems(1) show ?thesis by simp
  qed
qed

theorem deltas_nonneg_witness:
  "list_all nonneg_counters
     [summary_of (usage_of 10 5 15) 2 300 [], summary_of (usage_of 3 1 4) 1 100 []]
   \<and> map (map_sum id nonneg_deltas)
       (observe_all (plain_agent 1)
          [summary_of (usage_of 10 5 15) 2 300 [], summary_of (usage_of 3 1 4) 1 100 []]
          initial_state)
     = [Inr True, Inr True]"
proof -
  have h: "list_all nonneg_counters
     [summary_of (usage_of 10 5 15) 2 300 [], summary_of (usage_of 3 1 4) 1 100 []]"
    by (simp add: nonneg_counters_def read_counters_def py_get_def dict_field_def
                  not_negative_def usage_keys_def summary_of_def usage_of_def)
  obtain p1 p2 where run:
    "observe_all (plain_agent 1)
       [summary_of (usage_of 10 5 15) 2 300 [], summary_of (usage_of 3 1 4) 1 100 []]
       initial_state = [Inr p1, Inr p2]"
    by (simp add: py_defs extract_defs calc_defs example_defs)
  have m1: "Inr p1 \<in> set (observe_all (plain_agent 1)
       [summary_of (usage_of 10 5 15) 2 300 [], summary_of (usage_of 3 1 4) 1 100 []]
       initial_state)"
    and m2: "Inr p2 \<in> set (observe_all (plain_agent 1)
       [summary_of (usage_of 10 5 15) 2 300 [], summary_of (usage_of 3 1 4) 1 100 []]
       initial_state)"
    unfolding run by simp_all
  have "nonneg_deltas p1" and "nonneg_deltas p2"
    using deltas_nonneg [OF h m1] deltas_nonneg [OF h m2] .
  with h show ?thesis unfolding run by simp
qed

text \<open>The claim as the specification states it fails at the first observation, whose deltas
  are the cumulative values themselves: with the counters -5, 0, -5, 0 and 0 the
  calculation returns, and not all of its deltas are non-negative.\<close>

theorem nonneg_counterexample:
  "map (map_sum id nonneg_deltas)
     (observe_all (plain_agent 1) [summary_of (usage_of (-5) 0 (-5)) 0 0 []] initial_state)
   = [Inr False]"
  by (simp add: py_defs extract_defs calc_defs example_defs nonneg_deltas_def usage_keys_def is_nonneg_def)

section \<open>Reset\<close>

text \<open>Resetting twice is resetting once.\<close>

lemma reset_idempotent:
  "reset_metrics_state (reset_metrics_state s) = reset_metrics_state s"
  by (simp add: reset_metrics_state_def)

lemma save_snapshot_totals:
  "save_snapshot agent_obj cu cc cl s = Inr s1 \<Longrightarrow> session_totals s1 = session_totals s"
  by (auto simp: save_snapshot_def bindE_eq_Inr split: option.splits)

lemma accumulate_no_totals:
  "t0 ''inputTokens'' = None \<Longrightarrow> accumulate t0 du dc dl = (Some KeyError, t0)"
  by (simp add: accumulate_def add_total_def)

lemma calculate_no_totals:
  assumes "session_totals s ''inputTokens'' = None"
  shows "\<exists>e. fst (calculate_per_message_metrics summary agent_obj s) = Inl e"
  using assms
  by (auto simp: calculate_per_message_metrics_def Let_def accumulate_no_totals
                 save_snapshot_totals split: sum.splits prod.splits)

text \<open>After a reset the session totals have no keys, so the first \<^verbatim>\<open>+=\<close> of line 98 raises
  a KeyError, which the main entry point catches: whatever is observed next, no record is
  returned.\<close>

lemma observation_after_reset:
  "fst (extract_strands_trace_data resp mid ag clock (reset_metrics_state s)) \<noteq> Inr (Some rec)"
proof (cases "metrics resp")
  case NoMetrics
  then show ?thesis
    by (auto simp: extract_strands_trace_data_def py_print_def split: option.splits)
next
  case (ProbeRaises e)
  then show ?thesis by (simp add: extract_strands_trace_data_def)
next
  case (Metrics g)
  show ?thesis
  proof (cases g)
    case (Inl e)
    with Metrics show ?thesis
      by (auto simp: extract_strands_trace_data_def except_handler_def py_print_def
               split: option.splits)
  next
    case (Inr summary)
    have "session_totals (reset_metrics_state s) ''inputTokens'' = None"
      by (simp add: reset_metrics_state_def)
    from calculate_no_totals [OF this, of summary ag] obtain e where
      "fst (calculate_per_message_metrics summary ag (reset_metrics_state s)) = Inl e" ..
    with Metrics Inr show ?thesis
      by (auto simp: extract_strands_trace_data_def except_handler_def py_print_def
               split: prod.splits option.splits)
  qed
qed

text \<open>
  Claim C2 at a concrete input. Observed from the initial state, the agent with the
  counters 10, 5, 15, 2 and 300 gets a record whose input-token delta is 10. Observed after
  a reset, be it of the state in which the agent is tracked or of the initial state, the
  same agent with the same summary gets the null result.
\<close>

theorem reset_breaks_observation:
  "map_sum id (map_option prompt_tokens)
     (fst (extract_strands_trace_data (response_of (summary_of (usage_of 10 5 15) 2 300 []))
             None (Some (plain_agent 1)) 0 initial_state))
     = Inr (Some (VInt 10))
   \<and> fst (extract_strands_trace_data (response_of (summary_of (usage_of 10 5 15) 2 300 []))
            None (Some (plain_agent 1)) 0 (reset_metrics_state tracked_state))
     = Inr None
   \<and> fst (extract_strands_trace_data (response_of (summary_of (usage_of 10 5 15) 2 300 []))
            None (Some (plain_agent 1)) 0 (reset_metrics_state initial_state))
     = Inr None"
  by (simp add: py_defs extract_defs calc_defs view_defs entry_defs example_defs
                reset_metrics_state_def)

section \<open>Joining a tool call with its result\<close>

text \<open>The loops over the result items compute the last text block of all \<open>toolResult\<close>
  blocks, or leave the empty string when there is none.\<close>

lemma block_texts_Cons:
  "block_texts (ci # cis) =
     (case dict_field ci ''text'' of None \<Rightarrow> block_texts cis | Some t \<Rightarrow> t # block_texts cis)"
  by (simp add: block_texts_def split: option.splits)

lemma block_texts_Nil [simp]: "block_texts [] = []"
  by (simp add: block_texts_def)

lemma scan_result_content_last:
  "scan_result_content cis acc = last (acc # block_texts cis)"
  by (induction cis arbitrary: acc) (auto simp: block_texts_Cons split: option.splits)

lemma last_last: "last (last (a # xs) # ys) = last (a # xs @ ys)"
  by (cases ys) simp_all

lemma regular_content:
  assumes "regular_result_item ri" and "dict_field ri ''toolResult'' = Some tr"
  shows "bindE (py_get tr ''content'' (VList [])) py_iter = Inr (result_content_of tr)"
  using assms
  by (auto simp: regular_result_item_def result_content_of_def py_get_def py_iter_def
                 dict_field_def split: pyval.splits option.splits)

lemma scan_result_items_last:
  "list_all regular_result_item items \<Longrightarrow>
   scan_result_items items acc = Inr (last (acc # result_texts items))"
proof (induction items arbitrary: acc)
  case Nil
  then show ?case by (simp add: result_texts_def)
next
  case (Cons ri rest)
  then have reg: "regular_result_item ri" and rest: "list_all regular_result_item rest"
    by simp_all
  show ?case
  proof (cases "dict_field ri ''toolResult''")
    case None
    with Cons.IH [OF rest] show ?thesis by (simp add: result_texts_def)
  next
    case (Some tr)
    from regular_content [OF reg Some]
    have "bindE (py_get tr ''content'' (VList [])) py_iter = Inr (result_content_of tr)" .
    then obtain rc where rc: "py_get tr ''content'' (VList []) = Inr rc"
      "py_iter rc = Inr (result_content_of tr)"
      by (auto simp: bindE_eq_Inr)
    with Some Cons.IH [OF rest] show ?thesis
      by (simp add: result_texts_def scan_result_content_last last_last)
  qed
qed

text \<open>The scan over the siblings ends at the first one that passes the test; the siblings
  after it are never looked at.\<close>

lemma find_tool_result_first_match:
  assumes "\<forall>c \<in> set pre. sibling_matches c tid = Inr False"
      and "sibling_matches sib tid = Inr True"
  shows "find_tool_result (pre @ sib # post) tid = sibling_result sib"
  using assms by (induction pre) simp_all

lemma sibling_result_regular:
  assumes "dict_field sib ''message'' = Some msg"
      and "dict_field msg ''content'' = Some (VList items)"
      and "list_all regular_result_item items"
  shows "sibling_result sib = Inr (last (VStr [] # result_texts items))"
proof (cases items)
  case Nil
  with assms show ?thesis
    by (auto simp: sibling_result_def py_get_def py_truthy_def dict_field_def result_texts_def
             split: pyval.splits)
next
  case (Cons a list)
  with assms(1,2) have "sibling_result sib = scan_result_items items (VStr [])"
    by (auto simp: sibling_result_def py_get_def py_item_def py_iter_def py_truthy_def
                   dict_field_def split: pyval.splits)
  with assms(3) show ?thesis by (simp add: scan_result_items_last)
qed

text \<open>
  Claim C3, as the code has it. For a \<open>toolUse\<close> block with id \<open>tid\<close> found in the content that
  the extraction walks: if the first sibling that passes the test (name containing
  \<^verbatim>\<open>Tool:\<close>, metadata tool-use id equal to \<open>tid\<close>) has a message whose content is a list of
  regular items, then the extraction appends a tool call record for \<open>tid\<close> whose result is
  the last text block among the contents of the \<open>toolResult\<close> blocks of that message, and the
  empty string when there is none; the siblings after the first match play no role.
\<close>

theorem tool_join:
  assumes "dict_field item ''text'' = None"
      and "dict_field item ''toolUse'' = Some tool_use"
      and "dict_field tool_use ''toolUseId'' = Some tid"
      and "\<forall>c \<in> set pre. sibling_matches c tid = Inr False"
      and "sibling_matches sib tid = Inr True"
      and "dict_field sib ''message'' = Some msg"
      and "dict_field msg ''content'' = Some (VList result_items)"
      and "list_all regular_result_item result_items"
  shows "extract_items (pre @ sib # post) (item # rest) (message_contents, tool_calls) =
         extract_items (pre @ sib # post) rest
           (message_contents,
            tool_calls @
              [\<lparr>tc_id = tid,
                tc_name = (case dict_field tool_use ''name'' of
                             Some nm \<Rightarrow> nm | None \<Rightarrow> VStr ''unknown''),
                tc_parameters = (case dict_field tool_use ''input'' of
                                   Some inp \<Rightarrow> inp | None \<Rightarrow> VDict fmempty),
                tc_result = last (VStr [] # result_texts result_items)\<rparr>])"
proof -
  from assms(3) obtain d where d: "tool_use = VDict d" "fmlookup d ''toolUseId'' = Some tid"
    by (auto simp: dict_field_def split: pyval.splits)
  have res: "find_tool_result (pre @ sib # post) tid
               = Inr (last (VStr [] # result_texts result_items))"
    using find_tool_result_first_match [OF assms(4,5)]
          sibling_result_regular [OF assms(6,7,8)] by simp
  have "tool_call_of (pre @ sib # post) tool_use =
          Inr \<lparr>tc_id = tid,
               tc_name = (case dict_field tool_use ''name'' of
                            Some nm \<Rightarrow> nm | None \<Rightarrow> VStr ''unknown''),
               tc_parameters = (case dict_field tool_use ''input'' of
                                  Some inp \<Rightarrow> inp | None \<Rightarrow> VDict fmempty),
               tc_result = last (VStr [] # result_texts result_items)\<rparr>"
    using d res by (simp add: tool_call_of_def py_get_def dict_field_def)
  with assms(1,2) show ?thesis by simp
qed

text \<open>The example of the specification: one matching sibling whose \<open>toolResult\<close> holds the
  text block "42" gives the result "42".\<close>

theorem tool_join_witness:
  "extract_items [assistant_step ''t1'', tool_step ''t1'' [text_block ''42'']]
     [tool_use_block ''t1''] ([], [])
   = Inr ([], [\<lparr>tc_id = VStr ''t1'', tc_name = VStr ''calc'', tc_parameters = VDict fmempty,
                 tc_result = VStr ''42''\<rparr>])"
proof -
  have "extract_items ([assistant_step ''t1''] @ tool_step ''t1'' [text_block ''42''] # [])
          (tool_use_block ''t1'' # []) ([], [])
        = extract_items ([assistant_step ''t1''] @ tool_step ''t1'' [text_block ''42''] # []) []
            ([], [] @
              [\<lparr>tc_id = VStr ''t1'',
                tc_name = (case dict_field (tool_use_of ''t1'') ''name'' of
                             Some nm \<Rightarrow> nm | None \<Rightarrow> VStr ''unknown''),
                tc_parameters = (case dict_field (tool_use_of ''t1'') ''input'' of
                                   Some inp \<Rightarrow> inp | None \<Rightarrow> VDict fmempty),
                tc_result = last (VStr [] #
                  result_texts [tool_result_block ''t1'' [text_block ''42'']])\<rparr>])"
    by (rule tool_join [where msg = "tool_message ''t1'' [text_block ''42'']"])
       (simp_all add: py_defs extract_defs example_defs regular_result_item_def)
  then show ?thesis
    by (simp add: result_texts_def result_content_of_def block_texts_def dict_field_def
                  example_defs)
qed

text \<open>The claim as the specification states it fails when the \<open>toolResult\<close> holds two text
  blocks: the record gets the second one, not the first.\<close>

theorem tool_join_counterexample:
  "map_sum id (\<lambda>r. map tc_result (snd r))
     (extract_content
        (VList [cycle_node [assistant_step ''t1'',
                            tool_step ''t1'' [text_block ''first'', text_block ''second'']]]))
   = Inr [VStr ''second'']"
  by (simp add: py_defs extract_defs example_defs)

text \<open>The two copies of the sibling scan differ on a matching sibling without content: the
  scan of \<^verbatim>\<open>calculate_per_message_metrics\<close> ends there with the empty result, the scan of
  \<^verbatim>\<open>extract_direct_metrics_from_response\<close> goes on to the next matching sibling.\<close>

lemma companion_scan_goes_on:
  "map_sum id (\<lambda>r. map tc_result (snd r))
     (extract_content
        (VList [cycle_node [assistant_step ''t1'', silent_tool_step ''t1'',
                            tool_step ''t1'' [text_block ''42'']]]))
   = Inr [VStr []]
   \<and> map_sum id (\<lambda>r. map tc_result (snd r))
     (extract_content_direct
        (VList [cycle_node [assistant_step ''t1'', silent_tool_step ''t1'',
                            tool_step ''t1'' [text_block ''42'']]]))
   = Inr [VStr ''42'']"
  by (simp add: py_defs extract_defs example_defs)

section \<open>A usage mapping with a missing key\<close>

text \<open>The view builder subscripts the token delta with each of the three usage keys, so a
  delta dictionary that lacks one of them makes it raise.\<close>

lemma convert_missing_key:
  assumes "k \<in> set usage_keys" and "py_item (pm_token_delta pmd) k = Inl e"
  shows "\<exists>e'. convert_to_ui_format out resp pmd mid ag = Inl e'"
  using assms
  by (auto simp: convert_to_ui_format_def Let_def bindE_def usage_keys_def
           split: sum.splits prod.splits)

text \<open>Without a previous snapshot the token delta is the usage mapping itself, missing key
  included, and the main entry point returns the null result.\<close>

lemma first_observation_missing_key:
  assumes "metrics resp = Metrics (Inr summary)"
      and "read_counters summary = Inr (VDict usage, cc, cl)"
      and "k \<in> set usage_keys" and "fmlookup usage k = None"
      and "stdout_error s = None"
      and "previous_snapshot ag s = None"
  shows "fst (extract_strands_trace_data resp mid ag clock s) = Inr None"
proof -
  obtain r s' where calc: "calculate_per_message_metrics summary ag s = (r, s')"
    by (cases "calculate_per_message_metrics summary ag s") auto
  show ?thesis
  proof (cases r)
    case (Inl e)
    with calc assms(1,5) show ?thesis
      by (simp add: extract_strands_trace_data_def except_handler_def py_print_def)
  next
    case (Inr pmd)
    from calculate_Inr [OF calc [unfolded Inr]] assms(2,6) obtain dc dl where
      "collect_message summary (VDict usage, dc, dl) cc None = Inr pmd"
      by auto
    from collect_message_deltas(1) [OF this] assms(4)
    have "py_item (pm_token_delta (pmd\<lparr>pm_metrics_summary := summary\<rparr>)) k = Inl KeyError"
      by (simp add: py_item_def)
    from convert_missing_key [OF assms(3) this] obtain e' where
      "convert_to_ui_format None resp (pmd\<lparr>pm_metrics_summary := summary\<rparr>)
         (resolve_message_id mid clock) ag = Inl e'" ..
    with calc Inr assms(1,5) show ?thesis
      by (simp add: extract_strands_trace_data_def except_handler_def py_print_def)
  qed
qed

lemma accumulate_ints:
  assumes "t0 ''inputTokens'' = Some a" and "t0 ''outputTokens'' = Some b"
      and "t0 ''totalTokens'' = Some c" and "t0 ''cycles'' = Some d"
      and "t0 ''latencyMs'' = Some e"
      and "py_get du ''inputTokens'' (VInt 0) = Inr (VInt i)"
      and "py_get du ''outputTokens'' (VInt 0) = Inr (VInt ou)"
      and "py_get du ''totalTokens'' (VInt 0) = Inr (VInt tt)"
  shows "accumulate t0 du (VInt x) (VInt y) =
           (None, t0(''inputTokens'' \<mapsto> a + i, ''outputTokens'' \<mapsto> b + ou,
                     ''totalTokens'' \<mapsto> c + tt, ''cycles'' \<mapsto> d + x, ''latencyMs'' \<mapsto> e + y))"
  using assms by (simp add: accumulate_def add_total_def)

lemma read_counters_dict:
  "read_counters summary = Inr x \<Longrightarrow> \<exists>tu. py_get summary ''tool_usage'' (VDict fmempty) = Inr tu"
  by (cases summary) (simp_all add: read_counters_def py_get_def)

lemma slice_same [simp]: "slice_list xs c c = []"
  by (simp add: slice_list_def Let_def)

lemma usage_int:
  assumes "list_all (\<lambda>k. case fmlookup usage k of None \<Rightarrow> True | Some v \<Rightarrow> is_int v) usage_keys"
      and "k \<in> set usage_keys"
  shows "\<exists>i. py_get (VDict usage) k (VInt 0) = Inr (VInt i)"
  using assms
  by (auto simp: usage_keys_def py_get_def is_int_def split: option.splits pyval.splits)

text \<open>An agent whose snapshot holds the counters of the summary: all deltas are 0, no trace
  is new, and a record is returned.\<close>

lemma tracked_same_summary:
  assumes m: "metrics resp = Metrics (Inr summary)"
      and rc: "read_counters summary = Inr (VDict usage, VInt c, VInt l)"
      and i1: "py_get (VDict usage) ''inputTokens'' (VInt 0) = Inr (VInt i1)"
      and i2: "py_get (VDict usage) ''outputTokens'' (VInt 0) = Inr (VInt i2)"
      and i3: "py_get (VDict usage) ''totalTokens'' (VInt 0) = Inr (VInt i3)"
      and snap: "agent_snapshots s (agent_id a) =
                   Some \<lparr>snap_inputTokens = VInt i1, snap_outputTokens = VInt i2,
                         snap_totalTokens = VInt i3, snap_cycles = VInt c,
                         snap_latencyMs = VInt l\<rparr>"
      and tot: "session_totals s ''inputTokens'' = Some ta" "session_totals s ''outputTokens'' = Some tb"
               "session_totals s ''totalTokens'' = Some tc" "session_totals s ''cycles'' = Some td"
               "session_totals s ''latencyMs'' = Some te"
      and tr: "py_get summary ''traces'' (VList []) = Inr (VList traces)"
      and md: "actual_model_of (Some a) = Inr nm"
      and out: "stdout_error s = None"
  shows "\<exists>rec. fst (extract_strands_trace_data resp mid (Some a) clock s) = Inr (Some rec)
           \<and> prompt_tokens rec = VInt 0 \<and> completion_tokens rec = VInt 0
           \<and> total_tokens rec = VInt 0 \<and> debug_new_cycles rec = VInt 0
           \<and> total_duration_ms rec = VInt 0"
proof -
  from read_counters_dict [OF rc] obtain tu where
    tu: "py_get summary ''tool_usage'' (VDict fmempty) = Inr tu" ..
  let ?zeros = "VDict (fmupd ''inputTokens'' (VInt 0) (fmupd ''outputTokens'' (VInt 0)
                   (fmupd ''totalTokens'' (VInt 0) fmempty)))"
  have delta: "compute_delta (VDict usage) (VInt c) (VInt l) (agent_snapshots s (agent_id a))
                 = Inr (?zeros, VInt 0, VInt 0)"
    by (simp add: snap compute_delta_def usage_delta_def i1 i2 i3 clamped_diff_def
                  py_sub_def py_max_def)
  have save: "save_snapshot (Some a) (VDict usage) (VInt c) (VInt l) s
                = Inr (s\<lparr>agent_snapshots := (agent_snapshots s)(agent_id a \<mapsto>
                     \<lparr>snap_inputTokens = VInt i1, snap_outputTokens = VInt i2,
                         snap_totalTokens = VInt i3, snap_cycles = VInt c,
                         snap_latencyMs = VInt l\<rparr>)\<rparr>)"
    by (simp add: save_snapshot_def take_snapshot_def i1 i2 i3)
  have acc: "\<exists>t. accumulate (session_totals s) ?zeros (VInt 0) (VInt 0) = (None, t)"
    using accumulate_ints [OF tot, of ?zeros 0 0 0 0 0]
    by (simp add: py_get_def)
  then obtain t where acc: "accumulate (session_totals s) ?zeros (VInt 0) (VInt 0) = (None, t)" ..
  have coll: "collect_message summary (?zeros, VInt 0, VInt 0) (VInt c)
                (agent_snapshots s (agent_id a))
              = Inr \<lparr>pm_token_delta = ?zeros, pm_new_cycles = VInt 0, pm_latency_ms = VInt 0,
                     pm_message_contents = [], pm_tool_calls = [], pm_tool_usage = tu,
                     pm_new_traces = VList [], pm_metrics_summary = summary\<rparr>"
    by (simp add: collect_message_def tr tu snap slice_new_traces_def py_len_def
                  py_less_int_def py_slice_def slice_index_def extract_content_def py_iter_def)
  have calc: "fst (calculate_per_message_metrics summary (Some a) s)
              = Inr \<lparr>pm_token_delta = ?zeros, pm_new_cycles = VInt 0, pm_latency_ms = VInt 0,
                     pm_message_contents = [], pm_tool_calls = [], pm_tool_usage = tu,
                     pm_new_traces = VList [], pm_metrics_summary = summary\<rparr>"
    by (simp add: calculate_per_message_metrics_def rc delta save acc coll)
  then obtain s' where calc':
    "calculate_per_message_metrics summary (Some a) s
       = (Inr \<lparr>pm_token_delta = ?zeros, pm_new_cycles = VInt 0, pm_latency_ms = VInt 0,
                pm_message_contents = [], pm_tool_calls = [], pm_tool_usage = tu,
                pm_new_traces = VList [], pm_metrics_summary = summary\<rparr>, s')"
    by (cases "calculate_per_message_metrics summary (Some a) s") auto
  show ?thesis
    by (simp add: extract_strands_trace_data_def m calc' md out except_handler_def
                  py_print_def convert_to_ui_format_def py_iter_def py_item_def)
qed

text \<open>The state after a first observation: the snapshot is saved with 0 for a missing usage
  key, and the totals keep their keys, whether or not a record is returned.\<close>

lemma extract_state:
  "metrics resp = Metrics (Inr summary) \<Longrightarrow>
   snd (extract_strands_trace_data resp mid ag clock s)
     = snd (calculate_per_message_metrics summary ag s)"
  by (simp add: extract_strands_trace_data_def split: prod.splits)

lemma state_after_first:
  assumes rc: "read_counters summary = Inr (VDict usage, VInt c, VInt l)"
      and i1: "py_get (VDict usage) ''inputTokens'' (VInt 0) = Inr (VInt i1)"
      and i2: "py_get (VDict usage) ''outputTokens'' (VInt 0) = Inr (VInt i2)"
      and i3: "py_get (VDict usage) ''totalTokens'' (VInt 0) = Inr (VInt i3)"
      and prev: "agent_snapshots s (agent_id a) = None"
      and tot: "session_totals s ''inputTokens'' = Some ta" "session_totals s ''outputTokens'' = Some tb"
               "session_totals s ''totalTokens'' = Some tc" "session_totals s ''cycles'' = Some td"
               "session_totals s ''latencyMs'' = Some te"
  shows "snd (calculate_per_message_metrics summary (Some a) s) =
           s\<lparr>agent_snapshots := (agent_snapshots s)(agent_id a \<mapsto>
                  \<lparr>snap_inputTokens = VInt i1, snap_outputTokens = VInt i2,
                    snap_totalTokens = VInt i3, snap_cycles = VInt c,
                    snap_latencyMs = VInt l\<rparr>),
             session_totals := (session_totals s)
                 (''inputTokens'' \<mapsto> ta + i1, ''outputTokens'' \<mapsto> tb + i2,
                  ''totalTokens'' \<mapsto> tc + i3, ''cycles'' \<mapsto> td + c, ''latencyMs'' \<mapsto> te + l)\<rparr>"
proof -
  have save: "save_snapshot (Some a) (VDict usage) (VInt c) (VInt l) s
                = Inr (s\<lparr>agent_snapshots := (agent_snapshots s)(agent_id a \<mapsto>
                     \<lparr>snap_inputTokens = VInt i1, snap_outputTokens = VInt i2,
                         snap_totalTokens = VInt i3, snap_cycles = VInt c,
                         snap_latencyMs = VInt l\<rparr>)\<rparr>)"
    by (simp add: save_snapshot_def take_snapshot_def i1 i2 i3)
  show ?thesis
    by (simp add: calculate_per_message_metrics_def rc prev save
                  accumulate_ints [OF tot i1 i2 i3])
qed

text \<open>
  Claim C10. Let the usage mapping of a summary lack one of the keys \<open>inputTokens\<close>,
  \<open>outputTokens\<close> and \<open>totalTokens\<close>, the values it has and the cycle count and latency be
  integers, the traces a list, and let the standard output take the messages. Then a first observation of an agent through the main
  entry point returns the null result, and so does a call without an agent; a second
  observation of the same agent with the same summary returns a record, in which the delta
  of the missing key is 0.
\<close>

theorem missing_usage_key:
  assumes m: "metrics resp = Metrics (Inr summary)"
      and rc: "read_counters summary = Inr (VDict usage, VInt c, VInt l)"
      and k: "k \<in> set usage_keys" and miss: "fmlookup usage k = None"
      and ints: "list_all (\<lambda>k'. case fmlookup usage k' of None \<Rightarrow> True | Some v \<Rightarrow> is_int v)
                   usage_keys"
      and prev: "agent_snapshots s (agent_id a) = None"
      and tot: "list_all (\<lambda>k'. session_totals s k' \<noteq> None) counter_keys"
      and tr: "py_get summary ''traces'' (VList []) = Inr (VList traces)"
      and md: "actual_model_of (Some a) = Inr nm"
      and out: "stdout_error s = None"
  shows "fst (extract_strands_trace_data resp mid (Some a) clock s) = Inr None
         \<and> fst (extract_strands_trace_data resp mid None clock s) = Inr None
         \<and> (\<exists>rec. fst (extract_strands_trace_data resp mid2 (Some a) clock2
                          (snd (extract_strands_trace_data resp mid (Some a) clock s)))
                     = Inr (Some rec)
                   \<and> delta_of k rec = VInt 0)"
proof -
  have first: "fst (extract_strands_trace_data resp mid (Some a) clock s) = Inr None"
    by (rule first_observation_missing_key [OF m rc k miss out])
       (simp add: previous_snapshot_def prev)
  have anon: "fst (extract_strands_trace_data resp mid None clock s) = Inr None"
    by (rule first_observation_missing_key [OF m rc k miss out])
       (simp add: previous_snapshot_def)
  from usage_int [OF ints, of "''inputTokens''"] usage_int [OF ints, of "''outputTokens''"]
       usage_int [OF ints, of "''totalTokens''"]
  obtain i1 i2 i3 where
    i: "py_get (VDict usage) ''inputTokens'' (VInt 0) = Inr (VInt i1)"
       "py_get (VDict usage) ''outputTokens'' (VInt 0) = Inr (VInt i2)"
       "py_get (VDict usage) ''totalTokens'' (VInt 0) = Inr (VInt i3)"
    by (auto simp: usage_keys_def)
  from tot obtain ta tb tc td te where
    t: "session_totals s ''inputTokens'' = Some ta" "session_totals s ''outputTokens'' = Some tb"
       "session_totals s ''totalTokens'' = Some tc" "session_totals s ''cycles'' = Some td"
       "session_totals s ''latencyMs'' = Some te"
    by (auto simp: counter_keys_def)
  let ?s1 = "snd (extract_strands_trace_data resp mid (Some a) clock s)"
  have s1: "?s1 = s\<lparr>agent_snapshots := (agent_snapshots s)(agent_id a \<mapsto>
                  \<lparr>snap_inputTokens = VInt i1, snap_outputTokens = VInt i2,
                    snap_totalTokens = VInt i3, snap_cycles = VInt c,
                    snap_latencyMs = VInt l\<rparr>),
             session_totals := (session_totals s)
                 (''inputTokens'' \<mapsto> ta + i1, ''outputTokens'' \<mapsto> tb + i2,
                  ''totalTokens'' \<mapsto> tc + i3, ''cycles'' \<mapsto> td + c, ''latencyMs'' \<mapsto> te + l)\<rparr>"
    using extract_state [OF m] state_after_first [OF rc i prev t] by simp
  have "\<exists>rec. fst (extract_strands_trace_data resp mid2 (Some a) clock2 ?s1) = Inr (Some rec)
           \<and> prompt_tokens rec = VInt 0 \<and> completion_tokens rec = VInt 0
           \<and> total_tokens rec = VInt 0 \<and> debug_new_cycles rec = VInt 0
           \<and> total_duration_ms rec = VInt 0"
    by (rule tracked_same_summary [OF m rc i _ _ _ _ _ _ tr md]) (simp_all add: s1 out)
  with k have "\<exists>rec. fst (extract_strands_trace_data resp mid2 (Some a) clock2 ?s1) = Inr (Some rec)
           \<and> delta_of k rec = VInt 0"
    by (auto simp: delta_of_def usage_keys_def)
  with first anon show ?thesis by simp
qed

theorem missing_usage_key_witness:
  "fst (extract_strands_trace_data (response_of partial_summary) None (Some (plain_agent 1)) 0
          initial_state) = Inr None
   \<and> fst (extract_strands_trace_data (response_of partial_summary) None None 0 initial_state)
       = Inr None
   \<and> (\<exists>rec. fst (extract_strands_trace_data (response_of partial_summary) None
                    (Some (plain_agent 1)) 1
                    (snd (extract_strands_trace_data (response_of partial_summary) None
                            (Some (plain_agent 1)) 0 initial_state)))
               = Inr (Some rec)
             \<and> delta_of ''outputTokens'' rec = VInt 0)"
  by (rule missing_usage_key
       [where summary = partial_summary
          and usage = "fmap_of_list [(''inputTokens'', VInt 10), (''totalTokens'', VInt 15)]"
          and c = 2 and l = 300 and traces = "[]"
          and nm = "''us.anthropic.claude-3-7-sonnet-20250219-v1:0''"])
     (simp_all add: partial_summary_def summary_of_def response_of_def plain_agent_def
        initial_state_def read_counters_def py_get_def usage_keys_def counter_keys_def
        is_int_def actual_model_of_def)

section \<open>Session totals\<close>

text \<open>A record returned by the main entry point carries the deltas that the call has added
  to the session totals.\<close>

lemma convert_Inr_fields:
  assumes "convert_to_ui_format out resp pmd mid ag = Inr rec"
  shows "py_item (pm_token_delta pmd) ''inputTokens'' = Inr (prompt_tokens rec)"
    and "py_item (pm_token_delta pmd) ''outputTokens'' = Inr (completion_tokens rec)"
    and "py_item (pm_token_delta pmd) ''totalTokens'' = Inr (total_tokens rec)"
    and "debug_new_cycles rec = pm_new_cycles pmd"
    and "total_duration_ms rec = pm_latency_ms pmd"
  using assms
  by (auto simp: convert_to_ui_format_def Let_def bindE_eq_Inr split: prod.splits)

lemma extract_Some:
  assumes "extract_strands_trace_data resp mid ag clock s = (Inr (Some rec), s')"
  shows "\<exists>summary pmd.
           metrics resp = Metrics (Inr summary) \<and>
           calculate_per_message_metrics summary ag s = (Inr pmd, s') \<and>
           convert_to_ui_format (stdout_error s) resp (pmd\<lparr>pm_metrics_summary := summary\<rparr>)
             (resolve_message_id mid clock) ag = Inr rec"
  using assms
  by (auto simp: extract_strands_trace_data_def except_handler_def py_print_def bindE_def
           split: metrics_attr.splits option.splits sum.splits prod.splits)

lemma item_get:
  "py_item d k = Inr v \<Longrightarrow> py_get d k dflt = Inr v"
  by (auto simp: py_item_def py_get_def split: pyval.splits option.splits)

text \<open>One call of the main entry point that returns a record adds the delta of the record
  to every total, and the totals keep their keys.\<close>

lemma tracked_step:
  assumes ex: "extract_strands_trace_data resp mid ag clock s = (Inr (Some rec), s')"
      and k: "k \<in> set counter_keys"
      and t: "session_totals s k = Some t"
  shows "session_totals s' k = Some (t + int_of (delta_of k rec))"
proof -
  from extract_Some [OF ex] obtain summary pmd where
    calc: "calculate_per_message_metrics summary ag s = (Inr pmd, s')" and
    conv: "convert_to_ui_format (stdout_error s) resp (pmd\<lparr>pm_metrics_summary := summary\<rparr>)
             (resolve_message_id mid clock) ag = Inr rec"
    by blast
  from calculate_Inr [OF calc] obtain cu cc cl du dc dl s1 totals where
    save: "save_snapshot ag cu cc cl s = Inr s1" and
    acc: "accumulate (session_totals s1) du dc dl = (None, totals)" and
    coll: "collect_message summary (du, dc, dl) cc (previous_snapshot ag s) = Inr pmd" and
    s': "s' = s1\<lparr>session_totals := totals\<rparr>"
    by blast
  note f = collect_message_deltas [OF coll]
  note c = convert_Inr_fields [OF conv]
  from c(1-3) f(1) have g:
    "py_get du ''inputTokens'' (VInt 0) = Inr (prompt_tokens rec)"
    "py_get du ''outputTokens'' (VInt 0) = Inr (completion_tokens rec)"
    "py_get du ''totalTokens'' (VInt 0) = Inr (total_tokens rec)"
    by (simp_all add: item_get)
  from accumulate_None [OF acc] obtain a b c' d e i ou tt x y where
    old: "session_totals s1 ''inputTokens'' = Some a" "session_totals s1 ''outputTokens'' = Some b"
         "session_totals s1 ''totalTokens'' = Some c'" "session_totals s1 ''cycles'' = Some d"
         "session_totals s1 ''latencyMs'' = Some e" and
    new: "py_get du ''inputTokens'' (VInt 0) = Inr (VInt i)"
         "py_get du ''outputTokens'' (VInt 0) = Inr (VInt ou)"
         "py_get du ''totalTokens'' (VInt 0) = Inr (VInt tt)"
         "dc = VInt x" "dl = VInt y" and
    tot: "totals = (session_totals s1)
            (''inputTokens'' \<mapsto> a + i, ''outputTokens'' \<mapsto> b + ou,
             ''totalTokens'' \<mapsto> c' + tt, ''cycles'' \<mapsto> d + x, ''latencyMs'' \<mapsto> e + y)"
    by (elim exE conjE) (rule that)
  from g new c(4,5) f(2,3) have rec:
    "prompt_tokens rec = VInt i" "completion_tokens rec = VInt ou" "total_tokens rec = VInt tt"
    "debug_new_cycles rec = VInt x" "total_duration_ms rec = VInt y"
    by simp_all
  have same: "session_totals s1 = session_totals s"
    by (rule save_snapshot_totals [OF save])
  from k have "k = ''inputTokens'' \<or> k = ''outputTokens'' \<or> k = ''totalTokens''
    \<or> k = ''cycles'' \<or> k = ''latencyMs''"
    by (simp add: counter_keys_def)
  then show ?thesis
  proof (elim disjE)
    assume "k = ''inputTokens''"
    with old(1) t same show ?thesis by (simp add: s' tot rec delta_of_def int_of_def)
  next
    assume "k = ''outputTokens''"
    with old(2) t same show ?thesis by (simp add: s' tot rec delta_of_def int_of_def)
  next
    assume "k = ''totalTokens''"
    with old(3) t same show ?thesis by (simp add: s' tot rec delta_of_def int_of_def)
  next
    assume "k = ''cycles''"
    with old(4) t same show ?thesis by (simp add: s' tot rec delta_of_def int_of_def)
  next
    assume "k = ''latencyMs''"
    with old(5) t same show ?thesis by (simp add: s' tot rec delta_of_def int_of_def)
  qed
qed

lemma tracked_step_keys:
  assumes ex: "extract_strands_trace_data resp mid ag clock s = (Inr (Some rec), s')"
      and keys: "list_all (\<lambda>k. session_totals s k \<noteq> None) counter_keys"
  shows "list_all (\<lambda>k. session_totals s' k \<noteq> None) counter_keys"
proof -
  have "\<And>k. k \<in> set counter_keys \<Longrightarrow> session_totals s' k \<noteq> None"
  proof -
    fix k assume k: "k \<in> set counter_keys"
    with keys obtain t where "session_totals s k = Some t"
      by (auto simp: list_all_iff)
    from tracked_step [OF ex k this] show "session_totals s' k \<noteq> None" by simp
  qed
  then show ?thesis by (simp add: list_all_iff)
qed

text \<open>One call of the companion entry point adds nothing.\<close>

lemma ephemeral_step [simp]:
  "snd (extract_direct_metrics_from_response resp mid clock s) = s"
  by (simp add: extract_direct_metrics_from_response_def split: metrics_attr.splits)

text \<open>
  Claim C6, as the code has it. After any sequence of observations with no reset in
  between, in which every call of the main entry point returned a record, each session
  total (inputTokens, outputTokens, totalTokens, cycles, latencyMs) is its value before the
  sequence plus the sum of the corresponding delta of the records that the main entry
  point returned. The records that the companion entry point returned are not in the sum:
  it adds nothing to the session totals.
\<close>

theorem session_totals_sum:
  assumes "run obs s = (log, s')"
      and "\<forall>(ob, r) \<in> set log. is_tracked ob \<longrightarrow> returned r"
      and "list_all (\<lambda>k'. session_totals s k' \<noteq> None) counter_keys"
      and "k \<in> set counter_keys"
      and "session_totals s k = Some t"
  shows "session_totals s' k = Some (t + sum_deltas is_tracked k log)"
  using assms
proof (induction obs arbitrary: s log t)
  case Nil
  then show ?case by simp
next
  case (Cons ob obs)
  obtain r s1 where step: "observe ob s = (r, s1)"
    by (cases "observe ob s") auto
  obtain log1 where rest: "run obs s1 = (log1, s')" and log: "log = (ob, r) # log1"
    using Cons.prems(1) step by (auto split: prod.splits)
  from Cons.prems(2) log have ret1: "\<forall>(ob, r) \<in> set log1. is_tracked ob \<longrightarrow> returned r"
    and ret: "is_tracked ob \<longrightarrow> returned r"
    by auto
  show ?case
  proof (cases ob)
    case (Tracked resp mid ag clock)
    with ret obtain rec where r: "r = Inr (Some rec)"
      by (auto simp: returned_def split: sum.splits option.splits)
    from step Tracked r have ex:
      "extract_strands_trace_data resp mid ag clock s = (Inr (Some rec), s1)" by simp
    note t1 = tracked_step [OF ex Cons.prems(4,5)]
    note k1 = tracked_step_keys [OF ex Cons.prems(3)]
    from Cons.IH [OF rest ret1 k1 Cons.prems(4) t1] show ?thesis
      by (simp add: log r Tracked)
  next
    case (Ephemeral resp mid clock)
    with step have s1: "s1 = s"
      by (metis ephemeral_step observe.simps(2) snd_conv)
    from Cons.IH [OF rest [unfolded s1] ret1 Cons.prems(3,4,5)] show ?thesis
      by (simp add: log Ephemeral split: sum.splits option.splits)
  qed
qed

text \<open>In the example run the input-token total is 18, the sum of the deltas 10 and 8 of the
  two records of the main entry point; with the record of the companion entry point the
  sum would be 23.\<close>

theorem session_totals_sum_witness:
  "session_totals (snd (run example_run initial_state)) ''inputTokens'' = Some 18
   \<and> sum_deltas is_tracked ''inputTokens'' (fst (run example_run initial_state)) = 18
   \<and> sum_deltas any_call ''inputTokens'' (fst (run example_run initial_state)) = 23"
proof -
  obtain log s' where
    run: "run example_run initial_state = (log, s')" and
    ret: "\<forall>(ob, r) \<in> set log. is_tracked ob \<longrightarrow> returned r" and
    sum: "sum_deltas is_tracked ''inputTokens'' log = 18" and
    all: "sum_deltas any_call ''inputTokens'' log = 23"
    by (simp add: example_run_def py_defs extract_defs calc_defs view_defs entry_defs
                  example_defs returned_def delta_of_def int_of_def any_call_def)
  have keys: "list_all (\<lambda>k'. session_totals initial_state k' \<noteq> None) counter_keys"
    by (simp add: counter_keys_def initial_state_def)
  have k: "''inputTokens'' \<in> set counter_keys"
    by (simp add: counter_keys_def)
  have t: "session_totals initial_state ''inputTokens'' = Some 0"
    by (simp add: initial_state_def)
  from session_totals_sum [OF run ret keys k t] sum all show ?thesis
    by (simp add: run)
qed

text \<open>The claim as the specification states it fails for a single observation through the
  companion entry point: the record has the input-token delta 5, and the input-token total
  stays 0.\<close>

theorem session_totals_counterexample:
  "sum_deltas any_call ''inputTokens''
     (fst (run [Ephemeral (response_of (summary_of (usage_of 5 5 10) 1 100 [])) None 0]
             initial_state)) = 5
   \<and> session_totals
       (snd (run [Ephemeral (response_of (summary_of (usage_of 5 5 10) 1 100 [])) None 0]
               initial_state)) ''inputTokens'' = Some 0"
  by (simp add: py_defs extract_defs calc_defs view_defs entry_defs example_defs
                delta_of_def int_of_def any_call_def)

end
